theory Spec2Isabelle
  imports Main "HOL-Library.Sublist"
begin

section \<open>Go library functions the program calls\<close>

text \<open>
  Go strings are byte sequences; they are modelled as \<^typ>\<open>string\<close>. The library
  functions below follow the Go standard library on a Unix build (path separator
  \<open>/\<close>, no volume names).
\<close>

subsection \<open>Package strings\<close>

text \<open>
  \<open>strings.ToLower\<close>: exact on ASCII input (\<open>A\<close>..\<open>Z\<close> are mapped to
  \<open>a\<close>..\<open>z\<close>); bytes outside that range are kept as they are.
\<close>

definition ToLower_char :: "char \<Rightarrow> char" where
  "ToLower_char c =
     (case map_of (zip ''ABCDEFGHIJKLMNOPQRSTUVWXYZ'' ''abcdefghijklmnopqrstuvwxyz'') c of
        Some d \<Rightarrow> d
      | None \<Rightarrow> c)"

definition ToLower :: "string \<Rightarrow> string" where
  "ToLower s = map ToLower_char s"

text \<open>\<open>strings.Contains s substr\<close>: some suffix of \<open>s\<close> starts with \<open>substr\<close>.\<close>

fun Contains :: "string \<Rightarrow> string \<Rightarrow> bool" where
  "Contains [] substr = (substr = [])"
| "Contains (c # s) substr = (prefix substr (c # s) \<or> Contains s substr)"

text \<open>\<open>strings.TrimSuffix\<close> and \<open>strings.TrimPrefix\<close>.\<close>

definition TrimSuffix :: "string \<Rightarrow> string \<Rightarrow> string" where
  "TrimSuffix s suf = (if suffix suf s then take (length s - length suf) s else s)"

definition TrimPrefix :: "string \<Rightarrow> string \<Rightarrow> string" where
  "TrimPrefix s pre = (if prefix pre s then drop (length pre) s else s)"

subsection \<open>Package path/filepath\<close>

definition IsPathSeparator :: "char \<Rightarrow> bool" where
  "IsPathSeparator c = (c = CHR ''/'')"

text \<open>
  \<open>filepath.Ext\<close> scans the path from its end: the suffix starting at the last dot
  of the final path element, or the empty string when that element has no dot. The
  scan runs over the reversed path and collects what it has passed.
\<close>

fun Ext_scan :: "string \<Rightarrow> string \<Rightarrow> string" where
  "Ext_scan [] passed = []"
| "Ext_scan (c # cs) passed =
     (if IsPathSeparator c then []
      else if c = CHR ''.'' then c # passed
      else Ext_scan cs (c # passed))"

definition Ext :: "string \<Rightarrow> string" where
  "Ext path = Ext_scan (rev path) []"

text \<open>\<open>filepath.Base\<close>: the last element of the path, trailing separators removed.\<close>

definition Base :: "string \<Rightarrow> string" where
  "Base path =
     (if path = [] then ''.''
      else
        let stripped = dropWhile IsPathSeparator (rev path);
            elem = rev (takeWhile (\<lambda>c. \<not> IsPathSeparator c) stripped)
        in if elem = [] then ''/'' else elem)"

text \<open>
  \<open>filepath.Clean\<close> works on the elements between separators: empty elements and
  \<open>.\<close> are dropped, \<open>..\<close> removes the element before it when there is one that is
  not itself \<open>..\<close>, is dropped at the root, and is kept otherwise. The result is the
  remaining elements joined by single separators, after the leading separator of a
  rooted path; an empty result is \<open>.\<close>.
\<close>

fun split_sep :: "string \<Rightarrow> string list" where
  "split_sep [] = [[]]"
| "split_sep (c # cs) =
     (if IsPathSeparator c then [] # split_sep cs
      else (case split_sep cs of
              [] \<Rightarrow> [[c]]
            | e # es \<Rightarrow> (c # e) # es))"

definition clean_step :: "bool \<Rightarrow> string list \<Rightarrow> string \<Rightarrow> string list" where
  "clean_step rooted out e =
     (if e = [] \<or> e = ''.'' then out
      else if e = ''..'' then
        (if out \<noteq> [] \<and> last out \<noteq> ''..'' then butlast out
         else if \<not> rooted then out @ [e]
         else out)
      else out @ [e])"

fun join_sep :: "string list \<Rightarrow> string" where
  "join_sep [] = []"
| "join_sep [e] = e"
| "join_sep (e # es) = e @ ''/'' @ join_sep es"

definition Clean :: "string \<Rightarrow> string" where
  "Clean path =
     (let rooted = (path \<noteq> [] \<and> IsPathSeparator (hd path));
          out = (if rooted then ''/'' else []) @
                join_sep (foldl (clean_step rooted) [] (split_sep path))
      in if out = [] then ''.'' else out)"

text \<open>
  \<open>filepath.Join\<close> of two elements: leading empty elements are ignored, the rest is
  joined by a separator and cleaned; the join of only empty elements is empty.
\<close>

definition Join :: "string \<Rightarrow> string \<Rightarrow> string" where
  "Join a b =
     (if a \<noteq> [] then Clean (a @ ''/'' @ b)
      else if b \<noteq> [] then Clean b
      else [])"

section \<open>Data model\<close>

text \<open>
  The fields of \<open>github.ReleaseAsset\<close> and \<open>github.RepositoryRelease\<close> that the
  program reads, through the getters \<open>GetName\<close>, \<open>GetSize\<close>,
  \<open>GetBrowserDownloadURL\<close> and \<open>GetTagName\<close> (an unset field reads as the empty
  string or zero).
\<close>

record ReleaseAsset =
  Name :: string
  Size :: int
  BrowserDownloadURL :: string

record RepositoryRelease =
  TagName :: string
  ReleaseName :: string
  Assets :: "ReleaseAsset list"

section \<open>Asset selection\<close>

text \<open>The alias tables of \<open>getReleaseAssets\<close>.\<close>

definition osMap :: "string \<rightharpoonup> string list" where
  "osMap = map_of
     [(''linux'', [''linux'', ''gnu'', ''gnulinux'']),
      (''darwin'', [''darwin'', ''mac'', ''osx'']),
      (''windows'', [''windows'', ''win'']),
      (''freebsd'', [''freebsd'', ''bsd'']),
      (''openbsd'', [''openbsd'', ''bsd'']),
      (''netbsd'', [''netbsd'', ''bsd''])]"

definition archMap :: "string \<rightharpoonup> string list" where
  "archMap = map_of
     [(''amd64'', [''amd64'', ''x86_64'', ''64bit'']),
      (''386'', [''386'', ''i386'', ''x86'', ''32bit'']),
      (''arm'', [''arm'', ''armv5'', ''armv6'', ''armv7'']),
      (''arm64'', [''arm64'', ''aarch64'']),
      (''mips'', [''mips'']),
      (''mipsle'', [''mipsle'', ''mips32le'']),
      (''mips64'', [''mips64'']),
      (''mips64le'', [''mips64le'']),
      (''ppc64'', [''ppc64'', ''powerpc64'']),
      (''ppc64le'', [''ppc64le'', ''powerpc64le'']),
      (''s390x'', [''s390x'', ''s390''])]"

text \<open>
  The inner loop over the aliases: the flag is set at the first alias found in the
  lower-cased name, and the loop stops there.
\<close>

fun aliasLoop :: "string \<Rightarrow> string list \<Rightarrow> bool" where
  "aliasLoop lowerName [] = False"
| "aliasLoop lowerName (alias # aliases) =
     (if Contains lowerName alias then True else aliasLoop lowerName aliases)"

definition osMatched :: "string \<Rightarrow> string \<Rightarrow> bool" where
  "osMatched currentOS lowerName =
     (case osMap currentOS of
        Some aliases \<Rightarrow> aliasLoop lowerName aliases
      | None \<Rightarrow> Contains lowerName currentOS)"

definition archMatched :: "string \<Rightarrow> string \<Rightarrow> bool" where
  "archMatched currentArch lowerName =
     (case archMap currentArch of
        Some aliases \<Rightarrow> aliasLoop lowerName aliases
      | None \<Rightarrow> Contains lowerName currentArch)"

text \<open>The loop over the assets, appending each match to \<open>matchedAssets\<close>.\<close>

fun matchLoop ::
  "string \<Rightarrow> string \<Rightarrow> ReleaseAsset list \<Rightarrow> ReleaseAsset list \<Rightarrow> ReleaseAsset list" where
  "matchLoop currentOS currentArch [] matchedAssets = matchedAssets"
| "matchLoop currentOS currentArch (asset # assets) matchedAssets =
     (let lowerName = ToLower (Name asset)
      in matchLoop currentOS currentArch assets
           (if osMatched currentOS lowerName \<and> archMatched currentArch lowerName
            then matchedAssets @ [asset]
            else matchedAssets))"

text \<open>
  \<open>getReleaseAssets\<close>; \<open>runtime.GOOS\<close> and \<open>runtime.GOARCH\<close> are the first two
  arguments. The index \<open>assets[0]\<close> of the last line is in range, since the list has
  at least two elements there.
\<close>

definition getReleaseAssets ::
  "string \<Rightarrow> string \<Rightarrow> RepositoryRelease \<Rightarrow> ReleaseAsset list" where
  "getReleaseAssets currentOS currentArch release =
     (let assets = Assets release
      in if length assets \<le> 1 then assets
         else
           let matchedAssets = matchLoop currentOS currentArch assets []
           in if length matchedAssets > 0 then matchedAssets
              else [assets ! 0])"

text \<open>
  The selection rule in the words of the specification: the alias set of a platform
  name is its table entry, or the name itself when the table has none; a name matches
  when its lower-cased form has an alias of the operating system and an alias of the
  architecture as substrings.
\<close>

definition os_aliases :: "string \<Rightarrow> string list" where
  "os_aliases currentOS = (case osMap currentOS of Some aliases \<Rightarrow> aliases | None \<Rightarrow> [currentOS])"

definition arch_aliases :: "string \<Rightarrow> string list" where
  "arch_aliases currentArch =
     (case archMap currentArch of Some aliases \<Rightarrow> aliases | None \<Rightarrow> [currentArch])"

definition platform_match :: "string \<Rightarrow> string \<Rightarrow> string \<Rightarrow> bool" where
  "platform_match currentOS currentArch name =
     (list_ex (\<lambda>alias. sublist alias (ToLower name)) (os_aliases currentOS) \<and>
      list_ex (\<lambda>alias. sublist alias (ToLower name)) (arch_aliases currentArch))"

section \<open>Errors, options and the environment\<close>

text \<open>
  Every error value the program builds with \<open>fmt.Errorf\<close> is a constructor; the
  argument of a wrapping constructor is the wrapped error (\<open>%w\<close>). \<open>External\<close>
  stands for an error that comes from the operating system, the network or a
  library, and \<open>DeadlineExceeded\<close> for the error of the expired context.
\<close>

datatype error =
    External string
  | DeadlineExceeded
  | NoRelease string string
  | GetLatestReleaseFailed error
  | NoReleaseForTag string string string
  | GetReleaseByTagFailed error
  | AllAssetsFailed error
  | DownloadAssetFailed string error
  | DownloadSourceFailed error
  | CreateFileFailed error
  | SendRequestFailed error
  | BadStatus int
  | ReadDataFailed error
  | WriteDataFailed error
  | FlushFailed error
  | UnsupportedFormat string
  | OpenFileFailed error
  | GzipReaderFailed error
  | CreateExtractDirFailed error
  | ReadTarFailed error
  | CreateDirFailed error
  | CreateTargetFailed error
  | CopyContentFailed error

text \<open>
  The options the modelled functions read. Sizes and counts are natural numbers:
  the model covers the non-negative settings (a negative size makes the program
  panic when it allocates the buffer or the semaphore). The timeout acts through
  the context of \<open>downloadAssets\<close>, see \<open>ctx_Done\<close> below.
\<close>

record Options =
  Concurrency :: nat
  BufferSize :: nat
  CacheDir :: string
  AutoExtract :: bool
  TargetDir :: string
  DownloadSource :: bool
  CheckLatest :: bool

text \<open>
  An HTTP response: its status, and its body as the successive results of
  \<open>Read\<close> on the buffered reader, each the bytes read and the error returned with
  them. Reading past the end of the list gives no bytes and \<open>io.EOF\<close>.
\<close>

datatype read_err = NoErr | EOF | ReadErr error

record Response =
  StatusCode :: int
  ContentLength :: int
  Body :: "(string \<times> read_err) list"

text \<open>
  A tar stream as the successive results of \<open>tarReader.Next\<close>: a header with the
  payload that \<open>io.Copy\<close> reads from the reader (or the error of that read), or an
  error; the end of the list is \<open>io.EOF\<close>.
\<close>

datatype tar_type = TypeDir | TypeReg | TypeSymlink | TypeLink | TypeOther

record Header =
  HeaderName :: string
  Typeflag :: tar_type
  Linkname :: string
  Mode :: nat

datatype tar_next = Entry Header "error + string" | NextError error

text \<open>
  The environment: the world outside the program has an arbitrary type \<open>'w\<close>, and
  every call of the program into the operating system, the network and the GitHub
  client is a function of this record, from the world to a result and the world
  after the call. A failed GitHub call carries the status of the response, if there
  is a response, and the error. Files and readers are named by their path.
  \<open>gzip_Reader\<close> is \<open>gzip.NewReader\<close> on a file: its error, or the bytes that
  \<open>io.Copy\<close> reads from the reader (or the error of that read);
  \<open>gzip_tar_Reader\<close> is the tar reader on top of it. \<open>extractZip\<close> and
  \<open>moveFile\<close> are functions of the program that are left abstract here.
  \<open>next_done\<close> chooses, among the download goroutines still running, the one that
  finishes next, and \<open>ctx_Done\<close> tells whether the deadline of the context has
  passed.
\<close>

record 'w sys =
  GOOS :: string
  GOARCH :: string
  api_GetLatestRelease ::
    "string \<Rightarrow> string \<Rightarrow> 'w \<Rightarrow> ((int option \<times> error) + RepositoryRelease) \<times> 'w"
  api_GetReleaseByTag ::
    "string \<Rightarrow> string \<Rightarrow> string \<Rightarrow> 'w \<Rightarrow> ((int option \<times> error) + RepositoryRelease) \<times> 'w"
  http_Get :: "string \<Rightarrow> 'w \<Rightarrow> (error + Response) \<times> 'w"
  os_Stat :: "string \<Rightarrow> 'w \<Rightarrow> error option"
  os_ReadFile :: "string \<Rightarrow> 'w \<Rightarrow> error + string"
  os_WriteFile :: "string \<Rightarrow> string \<Rightarrow> 'w \<Rightarrow> error option \<times> 'w"
  os_MkdirAll :: "string \<Rightarrow> 'w \<Rightarrow> error option \<times> 'w"
  os_Create :: "string \<Rightarrow> 'w \<Rightarrow> error option \<times> 'w"
  os_Open :: "string \<Rightarrow> 'w \<Rightarrow> error option"
  os_Chmod :: "string \<Rightarrow> nat \<Rightarrow> 'w \<Rightarrow> error option \<times> 'w"
  os_Symlink :: "string \<Rightarrow> string \<Rightarrow> 'w \<Rightarrow> error option \<times> 'w"
  os_Link :: "string \<Rightarrow> string \<Rightarrow> 'w \<Rightarrow> error option \<times> 'w"
  buf_Write :: "string \<Rightarrow> string \<Rightarrow> 'w \<Rightarrow> error option \<times> 'w"
  buf_Flush :: "string \<Rightarrow> 'w \<Rightarrow> error option \<times> 'w"
  file_Close :: "string \<Rightarrow> 'w \<Rightarrow> 'w"
  gzip_Reader :: "string \<Rightarrow> 'w \<Rightarrow> error + (error + string)"
  gzip_tar_Reader :: "string \<Rightarrow> 'w \<Rightarrow> error + tar_next list"
  io_Copy :: "string \<Rightarrow> string \<Rightarrow> 'w \<Rightarrow> error option \<times> 'w"
  extractZip :: "string \<Rightarrow> 'w \<Rightarrow> (error + string) \<times> 'w"
  moveFile :: "string \<Rightarrow> string \<Rightarrow> 'w \<Rightarrow> error option \<times> 'w"
  ctx_Done :: "'w \<Rightarrow> bool"
  next_done :: "ReleaseAsset list \<Rightarrow> 'w \<Rightarrow> nat"

section \<open>Release resolver\<close>

definition getLatestRelease ::
  "'w sys \<Rightarrow> string \<Rightarrow> string \<Rightarrow> 'w \<Rightarrow> (error + RepositoryRelease) \<times> 'w" where
  "getLatestRelease s owner repo w =
     (case api_GetLatestRelease s owner repo w of
        (Inl (resp, err), w') \<Rightarrow>
          if resp = Some 404 then (Inl (NoRelease owner repo), w')
          else (Inl (GetLatestReleaseFailed err), w')
      | (Inr release, w') \<Rightarrow> (Inr release, w'))"

definition getReleaseByTag ::
  "'w sys \<Rightarrow> string \<Rightarrow> string \<Rightarrow> string \<Rightarrow> 'w \<Rightarrow> (error + RepositoryRelease) \<times> 'w" where
  "getReleaseByTag s owner repo tag w =
     (case api_GetReleaseByTag s owner repo tag w of
        (Inl (resp, err), w') \<Rightarrow>
          if resp = Some 404 then (Inl (NoReleaseForTag owner repo tag), w')
          else (Inl (GetReleaseByTagFailed err), w')
      | (Inr release, w') \<Rightarrow> (Inr release, w'))"

text \<open>The format string of \<open>getSourceCodeURL\<close>, filled in.\<close>

definition sourceCodeURL :: "string \<Rightarrow> string \<Rightarrow> string \<Rightarrow> string" where
  "sourceCodeURL owner repo tag =
     ''https://github.com/'' @ owner @ ''/'' @ repo @ ''/archive/refs/tags/'' @ tag @ ''.tar.gz''"

definition getSourceCodeURL ::
  "'w sys \<Rightarrow> string \<Rightarrow> string \<Rightarrow> string \<Rightarrow> 'w \<Rightarrow> (error + string) \<times> 'w" where
  "getSourceCodeURL s owner repo tag w =
     (if tag = [] then
        (case getLatestRelease s owner repo w of
           (Inl err, w') \<Rightarrow> (Inl err, w')
         | (Inr release, w') \<Rightarrow> (Inr (sourceCodeURL owner repo (TagName release)), w'))
      else (Inr (sourceCodeURL owner repo tag), w))"

definition getLatestTagName ::
  "'w sys \<Rightarrow> string \<Rightarrow> string \<Rightarrow> 'w \<Rightarrow> (error + string) \<times> 'w" where
  "getLatestTagName s owner repo w =
     (case getLatestRelease s owner repo w of
        (Inl err, w') \<Rightarrow> (Inl err, w')
      | (Inr release, w') \<Rightarrow> (Inr (TagName release), w'))"

definition IsLatestVersion ::
  "'w sys \<Rightarrow> string \<Rightarrow> string \<Rightarrow> string \<Rightarrow> 'w \<Rightarrow> (error + bool) \<times> 'w" where
  "IsLatestVersion s owner repo currentVersion w =
     (case getLatestTagName s owner repo w of
        (Inl err, w') \<Rightarrow> (Inl err, w')
      | (Inr latestVersion, w') \<Rightarrow>
          (Inr (TrimPrefix currentVersion ''v'' = TrimPrefix latestVersion ''v''), w'))"

definition getAssetDownloadURL :: "ReleaseAsset \<Rightarrow> string" where
  "getAssetDownloadURL asset = BrowserDownloadURL asset"

definition shouldDownloadSource :: "Options \<Rightarrow> ReleaseAsset list \<Rightarrow> bool" where
  "shouldDownloadSource opts assets = (length assets = 0 \<and> DownloadSource opts)"

section \<open>Buffered transfer\<close>

text \<open>
  The read and write loop of \<open>downloadWithBuffer\<close> over the successive results of
  \<open>bufferedReader.Read\<close>: a read error other than \<open>io.EOF\<close> is returned, a read
  of no bytes ends the loop, and the bytes read are written to the buffered writer,
  whose error is returned. The progress bar and the log lines have no part in the
  result and are left out. With a buffer of size zero the first read gives no bytes
  and no error, so that the loop ends at once: \<open>downloadWithBuffer\<close> then runs
  the loop on no reads at all.
\<close>

fun copyLoop :: "'w sys \<Rightarrow> string \<Rightarrow> (string \<times> read_err) list \<Rightarrow> 'w \<Rightarrow> error option \<times> 'w" where
  "copyLoop s filePath [] w = (None, w)"
| "copyLoop s filePath ((buffer, rerr) # reads) w =
     (case rerr of
        ReadErr e \<Rightarrow> (Some (ReadDataFailed e), w)
      | _ \<Rightarrow>
          if length buffer = 0 then (None, w)
          else
            (case buf_Write s filePath buffer w of
               (Some e, w') \<Rightarrow> (Some (WriteDataFailed e), w')
             | (None, w') \<Rightarrow> copyLoop s filePath reads w'))"

text \<open>
  The deferred calls that run when \<open>downloadWithBuffer\<close> returns after the file
  has been created: the flush of the buffered writer, whose error is dropped, then
  the close of the file.
\<close>

definition deferred :: "'w sys \<Rightarrow> string \<Rightarrow> 'w \<Rightarrow> 'w" where
  "deferred s filePath w = file_Close s filePath (snd (buf_Flush s filePath w))"

definition downloadWithBuffer ::
  "'w sys \<Rightarrow> Options \<Rightarrow> string \<Rightarrow> string \<Rightarrow> 'w \<Rightarrow> error option \<times> 'w" where
  "downloadWithBuffer s opts url filePath w =
     (case os_Create s filePath w of
        (Some e, w1) \<Rightarrow> (Some (CreateFileFailed e), w1)
      | (None, w1) \<Rightarrow>
          (case http_Get s url w1 of
             (Inl e, w2) \<Rightarrow> (Some (SendRequestFailed e), deferred s filePath w2)
           | (Inr resp, w2) \<Rightarrow>
               if StatusCode resp \<noteq> 200
               then (Some (BadStatus (StatusCode resp)), deferred s filePath w2)
               else
                 (case copyLoop s filePath (if BufferSize opts = 0 then [] else Body resp) w2 of
                    (Some e, w3) \<Rightarrow> (Some e, deferred s filePath w3)
                  | (None, w3) \<Rightarrow>
                      (case buf_Flush s filePath w3 of
                         (Some e, w4) \<Rightarrow> (Some (FlushFailed e), deferred s filePath w4)
                       | (None, w4) \<Rightarrow> (None, deferred s filePath w4)))))"

section \<open>Download orchestrator\<close>

definition downloadAsset ::
  "'w sys \<Rightarrow> Options \<Rightarrow> ReleaseAsset \<Rightarrow> 'w \<Rightarrow> (error + string) \<times> 'w" where
  "downloadAsset s opts asset w =
     (let url = getAssetDownloadURL asset;
          fileName = Name asset;
          filePath = Join (CacheDir opts) fileName
      in case downloadWithBuffer s opts url filePath w of
           (Some e, w') \<Rightarrow> (Inl (DownloadAssetFailed (Name asset) e), w')
         | (None, w') \<Rightarrow> (Inr filePath, w'))"

record downloadResult =
  res_filePath :: string
  res_err :: "error option"

text \<open>
  The struct \<open>downloadResult\<close> above has the fields \<open>filePath\<close> and \<open>err\<close>.
  The body of one download goroutine, after it has taken its slot: the result it
  sends on the channel.
\<close>

definition goroutine ::
  "'w sys \<Rightarrow> Options \<Rightarrow> ReleaseAsset \<Rightarrow> 'w \<Rightarrow> downloadResult \<times> 'w" where
  "goroutine s opts a w =
     (if ctx_Done s w then (\<lparr>res_filePath = [], res_err = Some DeadlineExceeded\<rparr>, w)
      else
        (case downloadAsset s opts a w of
           (Inl e, w') \<Rightarrow> (\<lparr>res_filePath = [], res_err = Some e\<rparr>, w')
         | (Inr path, w') \<Rightarrow> (\<lparr>res_filePath = path, res_err = None\<rparr>, w')))"

text \<open>
  The goroutines run concurrently. The model runs them one after the other, in the
  order in which they finish, which the environment chooses: \<open>next_done\<close> picks one
  of the goroutines still pending. The list returned is the content of the result
  channel, in the order in which the collecting loop receives it.
\<close>

function goroutines ::
  "'w sys \<Rightarrow> Options \<Rightarrow> ReleaseAsset list \<Rightarrow> 'w \<Rightarrow> downloadResult list \<times> 'w" where
  "goroutines s opts [] w = ([], w)"
| "goroutines s opts (a # as) w =
     (let pending = a # as;
          i = next_done s pending w mod length pending;
          first = goroutine s opts (pending ! i) w;
          rest = goroutines s opts (take i pending @ drop (Suc i) pending) (snd first)
      in (fst first # fst rest, snd rest))"
  by pat_completeness auto
termination
proof (relation "measure (\<lambda>(s, opts, pending, w). length pending)", goal_cases)
  case 1
  show ?case by simp
next
  case (2 s opts a as w pending i first)
  have "next_done s (a # as) w mod Suc (length as) < Suc (length as)"
    by (rule mod_less_divisor) simp
  with 2 show ?case
    by (auto simp: min_def)
qed

text \<open>The collecting loop over the result channel.\<close>

fun collectLoop ::
  "downloadResult list \<Rightarrow> string list \<Rightarrow> error list \<Rightarrow> string list \<times> error list" where
  "collectLoop [] filePaths errors = (filePaths, errors)"
| "collectLoop (result # results) filePaths errors =
     (case res_err result of
        Some e \<Rightarrow> collectLoop results filePaths (errors @ [e])
      | None \<Rightarrow> collectLoop results (filePaths @ [res_filePath result]) errors)"

text \<open>
  \<open>downloadAssets\<close>. Each goroutine first sends on the semaphore channel, whose
  capacity is \<open>Concurrency\<close>: with capacity zero no send ever completes, no result
  is sent, and on a non-empty asset list the call does not return, which is the
  value \<open>None\<close>.
\<close>

definition downloadAssets ::
  "'w sys \<Rightarrow> Options \<Rightarrow> ReleaseAsset list \<Rightarrow> 'w \<Rightarrow> ((error + string list) \<times> 'w) option" where
  "downloadAssets s opts assets w =
     (if assets \<noteq> [] \<and> Concurrency opts = 0 then None
      else
        let run = goroutines s opts assets w;
            collected = collectLoop (fst run) [] [];
            filePaths = fst collected;
            errors = snd collected
        in if length errors > 0 \<and> length filePaths = 0
           then Some (Inl (AllAssetsFailed (errors ! 0)), snd run)
           else Some (Inr filePaths, snd run))"

section \<open>Archive extractor\<close>

text \<open>\<open>filepath.Dir\<close>: the path up to its last separator, cleaned.\<close>

definition Dir :: "string \<Rightarrow> string" where
  "Dir path = Clean (rev (dropWhile (\<lambda>c. \<not> IsPathSeparator c) (rev path)))"

text \<open>The extraction directory that \<open>extractTarGz\<close> computes from the archive path.\<close>

definition tarGzExtractedDir :: "string \<Rightarrow> string" where
  "tarGzExtractedDir filePath =
     TrimSuffix filePath (Ext (TrimSuffix filePath (Ext filePath)))"

text \<open>
  The loop of \<open>extractTarGz\<close> over the entries of the tar stream. A failure of
  \<open>os.Chmod\<close>, \<open>os.Symlink\<close> or \<open>os.Link\<close> is logged and the loop goes on; an
  entry of any other type is skipped after the directory of its target was made.
\<close>

fun tarLoop :: "'w sys \<Rightarrow> string \<Rightarrow> tar_next list \<Rightarrow> 'w \<Rightarrow> error option \<times> 'w" where
  "tarLoop s extractedDir [] w = (None, w)"
| "tarLoop s extractedDir (NextError e # nexts) w = (Some (ReadTarFailed e), w)"
| "tarLoop s extractedDir (Entry header payload # nexts) w =
     (let targetPath = Join extractedDir (HeaderName header)
      in case os_MkdirAll s (Dir targetPath) w of
           (Some e, w1) \<Rightarrow> (Some (CreateDirFailed e), w1)
         | (None, w1) \<Rightarrow>
             (case Typeflag header of
                TypeDir \<Rightarrow>
                  (case os_MkdirAll s targetPath w1 of
                     (Some e, w2) \<Rightarrow> (Some (CreateDirFailed e), w2)
                   | (None, w2) \<Rightarrow> tarLoop s extractedDir nexts w2)
              | TypeReg \<Rightarrow>
                  (case os_Create s targetPath w1 of
                     (Some e, w2) \<Rightarrow> (Some (CreateTargetFailed e), w2)
                   | (None, w2) \<Rightarrow>
                       (case payload of
                          Inl e \<Rightarrow> (Some (CopyContentFailed e), file_Close s targetPath w2)
                        | Inr bytes \<Rightarrow>
                            (case io_Copy s targetPath bytes w2 of
                               (Some e, w3) \<Rightarrow>
                                 (Some (CopyContentFailed e), file_Close s targetPath w3)
                             | (None, w3) \<Rightarrow>
                                 tarLoop s extractedDir nexts
                                   (snd (os_Chmod s targetPath (Mode header)
                                      (file_Close s targetPath w3))))))
              | TypeSymlink \<Rightarrow>
                  tarLoop s extractedDir nexts (snd (os_Symlink s (Linkname header) targetPath w1))
              | TypeLink \<Rightarrow>
                  tarLoop s extractedDir nexts (snd (os_Link s (Linkname header) targetPath w1))
              | TypeOther \<Rightarrow> tarLoop s extractedDir nexts w1))"

definition extractTarGz :: "'w sys \<Rightarrow> string \<Rightarrow> 'w \<Rightarrow> (error + string) \<times> 'w" where
  "extractTarGz s filePath w =
     (case os_Open s filePath w of
        Some e \<Rightarrow> (Inl (OpenFileFailed e), w)
      | None \<Rightarrow>
          (case gzip_tar_Reader s filePath w of
             Inl e \<Rightarrow> (Inl (GzipReaderFailed e), w)
           | Inr nexts \<Rightarrow>
               (let extractedDir = tarGzExtractedDir filePath
                in case os_MkdirAll s extractedDir w of
                     (Some e, w1) \<Rightarrow> (Inl (CreateExtractDirFailed e), w1)
                   | (None, w1) \<Rightarrow>
                       (case tarLoop s extractedDir nexts w1 of
                          (Some e, w2) \<Rightarrow> (Inl e, w2)
                        | (None, w2) \<Rightarrow> (Inr extractedDir, w2)))))"

text \<open>
  \<open>extractGz\<close> decompresses the file into the single file named by the path
  without its extension.
\<close>

definition extractGz :: "'w sys \<Rightarrow> string \<Rightarrow> 'w \<Rightarrow> (error + string) \<times> 'w" where
  "extractGz s filePath w =
     (case os_Open s filePath w of
        Some e \<Rightarrow> (Inl (OpenFileFailed e), w)
      | None \<Rightarrow>
          (case gzip_Reader s filePath w of
             Inl e \<Rightarrow> (Inl (GzipReaderFailed e), w)
           | Inr payload \<Rightarrow>
               (let targetPath = TrimSuffix filePath (Ext filePath)
                in case os_Create s targetPath w of
                     (Some e, w1) \<Rightarrow> (Inl (CreateTargetFailed e), w1)
                   | (None, w1) \<Rightarrow>
                       (case payload of
                          Inl e \<Rightarrow> (Inl (CopyContentFailed e), file_Close s targetPath w1)
                        | Inr bytes \<Rightarrow>
                            (case io_Copy s targetPath bytes w1 of
                               (Some e, w2) \<Rightarrow>
                                 (Inl (CopyContentFailed e), file_Close s targetPath w2)
                             | (None, w2) \<Rightarrow>
                                 (Inr targetPath, file_Close s targetPath w2))))))"

definition extractFile :: "'w sys \<Rightarrow> string \<Rightarrow> 'w \<Rightarrow> (error + string) \<times> 'w" where
  "extractFile s filePath w =
     (let ext = ToLower (Ext filePath)
      in if ext = ''.zip'' then extractZip s filePath w
         else if ext = ''.tar.gz'' \<or> ext = ''.tgz'' then extractTarGz s filePath w
         else if ext = ''.gz'' then extractGz s filePath w
         else (Inl (UnsupportedFormat ext), w))"

section \<open>Public download operations\<close>

text \<open>
  The steps that \<open>DownloadLatestRelease\<close>, \<open>DownloadSpecificRelease\<close> and
  \<open>DownloadSourceCode\<close> repeat in their bodies. First the extraction of a
  downloaded file when \<open>AutoExtract\<close> is set: a failure is logged and the path
  stays the path of the file.
\<close>

definition extractStep :: "'w sys \<Rightarrow> Options \<Rightarrow> string \<Rightarrow> 'w \<Rightarrow> string \<times> 'w" where
  "extractStep s opts path w =
     (if AutoExtract opts then
        (case extractFile s path w of
           (Inl e, w') \<Rightarrow> (path, w')
         | (Inr extractedPath, w') \<Rightarrow> (extractedPath, w'))
      else (path, w))"

text \<open>
  The move into the target directory when one is configured: a failure is logged
  and the path stays what it was.
\<close>

definition moveStep :: "'w sys \<Rightarrow> Options \<Rightarrow> string \<Rightarrow> 'w \<Rightarrow> string \<times> 'w" where
  "moveStep s opts path w =
     (if TargetDir opts \<noteq> [] \<and> TargetDir opts \<noteq> CacheDir opts then
        (let targetPath = Join (TargetDir opts) (Base path)
         in case moveFile s path targetPath w of
              (Some e, w') \<Rightarrow> (path, w')
            | (None, w') \<Rightarrow> (targetPath, w'))
      else (path, w))"

text \<open>
  The loop that moves every downloaded file into the directory of a release with
  several files, and extracts it there when \<open>AutoExtract\<close> is set; the result of
  that extraction is not looked at.
\<close>

fun moveAll :: "'w sys \<Rightarrow> Options \<Rightarrow> string \<Rightarrow> string list \<Rightarrow> 'w \<Rightarrow> 'w" where
  "moveAll s opts dirPath [] w = w"
| "moveAll s opts dirPath (path # paths) w =
     (let targetPath = Join dirPath (Base path)
      in case moveFile s path targetPath w of
           (Some e, w') \<Rightarrow> moveAll s opts dirPath paths w'
         | (None, w') \<Rightarrow>
             moveAll s opts dirPath paths
               (if AutoExtract opts then snd (extractFile s targetPath w') else w'))"

definition multiFile ::
  "'w sys \<Rightarrow> Options \<Rightarrow> string \<Rightarrow> string list \<Rightarrow> 'w \<Rightarrow> (error + string) \<times> 'w" where
  "multiFile s opts dirName filePaths w =
     (let dirPath = Join (CacheDir opts) dirName
      in case os_MkdirAll s dirPath w of
           (Some e, w1) \<Rightarrow> (Inl (CreateDirFailed e), w1)
         | (None, w1) \<Rightarrow>
             (let moved = moveStep s opts dirPath (moveAll s opts dirPath filePaths w1)
              in (Inr (fst moved), snd moved)))"

subsection \<open>Cache and version tracker\<close>

definition cacheVersionPath :: "Options \<Rightarrow> string \<Rightarrow> string \<Rightarrow> string" where
  "cacheVersionPath opts owner repo =
     Join (CacheDir opts) (owner @ ''-'' @ repo @ ''-version.txt'')"

text \<open>
  The test of \<open>DownloadLatestRelease\<close> on the cached version: the record file can
  be stat'ed and read, and its content is the tag.
\<close>

definition cacheIsCurrent ::
  "'w sys \<Rightarrow> Options \<Rightarrow> string \<Rightarrow> string \<Rightarrow> string \<Rightarrow> 'w \<Rightarrow> bool" where
  "cacheIsCurrent s opts owner repo tagName w =
     (let cachePath = cacheVersionPath opts owner repo
      in case os_Stat s cachePath w of
           Some statErr \<Rightarrow> False
         | None \<Rightarrow>
             (case os_ReadFile s cachePath w of
                Inl readErr \<Rightarrow> False
              | Inr cachedVersion \<Rightarrow> cachedVersion = tagName))"

text \<open>The update of the record file; a failure of the write is logged.\<close>

definition updateCache ::
  "'w sys \<Rightarrow> Options \<Rightarrow> string \<Rightarrow> string \<Rightarrow> string \<Rightarrow> 'w \<Rightarrow> 'w" where
  "updateCache s opts owner repo tagName w =
     (if CheckLatest opts
      then snd (os_WriteFile s (cacheVersionPath opts owner repo) tagName w)
      else w)"

subsection \<open>The three operations\<close>

definition DownloadSourceCode ::
  "'w sys \<Rightarrow> Options \<Rightarrow> string \<Rightarrow> string \<Rightarrow> string \<Rightarrow> 'w \<Rightarrow> (error + string) \<times> 'w" where
  "DownloadSourceCode s opts owner repo tag w =
     (case getSourceCodeURL s owner repo tag w of
        (Inl e, w1) \<Rightarrow> (Inl e, w1)
      | (Inr url, w1) \<Rightarrow>
          (let fileName = owner @ ''-'' @ repo @ ''-'' @ tag @ ''.tar.gz'';
               path = Join (CacheDir opts) fileName
           in case downloadWithBuffer s opts url path w1 of
                (Some e, w2) \<Rightarrow> (Inl (DownloadSourceFailed e), w2)
              | (None, w2) \<Rightarrow>
                  (let extracted = extractStep s opts path w2;
                       moved = moveStep s opts (fst extracted) (snd extracted)
                   in (Inr (fst moved), snd moved))))"

text \<open>
  What both release operations do with the paths that \<open>downloadAssets\<close> returned;
  \<open>record\<close> is the update of the cache record, which only
  \<open>DownloadLatestRelease\<close> makes.
\<close>

definition placeFiles ::
  "'w sys \<Rightarrow> Options \<Rightarrow> string \<Rightarrow> string list \<Rightarrow> ('w \<Rightarrow> 'w) \<Rightarrow> 'w \<Rightarrow> (error + string) \<times> 'w" where
  "placeFiles s opts dirName filePaths record w =
     (if length filePaths = 1 then
        (let extracted = extractStep s opts (filePaths ! 0) w;
             moved = moveStep s opts (fst extracted) (snd extracted)
         in (Inr (fst moved), record (snd moved)))
      else
        (case multiFile s opts dirName filePaths w of
           (Inl e, w') \<Rightarrow> (Inl e, w')
         | (Inr dirPath, w') \<Rightarrow> (Inr dirPath, record w')))"

definition DownloadLatestRelease ::
  "'w sys \<Rightarrow> Options \<Rightarrow> string \<Rightarrow> string \<Rightarrow> 'w \<Rightarrow> ((error + string) \<times> 'w) option" where
  "DownloadLatestRelease s opts owner repo w =
     (case getLatestRelease s owner repo w of
        (Inl e, w1) \<Rightarrow> Some (Inl e, w1)
      | (Inr release, w1) \<Rightarrow>
          if CheckLatest opts \<and> cacheIsCurrent s opts owner repo (TagName release) w1
          then Some (Inr (Join (CacheDir opts) (owner @ ''-'' @ repo)), w1)
          else
            (let assets = getReleaseAssets (GOOS s) (GOARCH s) release
             in if shouldDownloadSource opts assets
                then Some (DownloadSourceCode s opts owner repo (TagName release) w1)
                else
                  (case downloadAssets s opts assets w1 of
                     None \<Rightarrow> None
                   | Some (Inl e, w2) \<Rightarrow> Some (Inl e, w2)
                   | Some (Inr filePaths, w2) \<Rightarrow>
                       Some (placeFiles s opts
                               (owner @ ''-'' @ repo @ ''-'' @ TagName release) filePaths
                               (updateCache s opts owner repo (TagName release)) w2))))"

definition DownloadSpecificRelease ::
  "'w sys \<Rightarrow> Options \<Rightarrow> string \<Rightarrow> string \<Rightarrow> string \<Rightarrow> 'w \<Rightarrow> ((error + string) \<times> 'w) option" where
  "DownloadSpecificRelease s opts owner repo tag w =
     (case getReleaseByTag s owner repo tag w of
        (Inl e, w1) \<Rightarrow> Some (Inl e, w1)
      | (Inr release, w1) \<Rightarrow>
          (let assets = getReleaseAssets (GOOS s) (GOARCH s) release
           in if shouldDownloadSource opts assets
              then Some (DownloadSourceCode s opts owner repo tag w1)
              else
                (case downloadAssets s opts assets w1 of
                   None \<Rightarrow> None
                 | Some (Inl e, w2) \<Rightarrow> Some (Inl e, w2)
                 | Some (Inr filePaths, w2) \<Rightarrow>
                     Some (placeFiles s opts (owner @ ''-'' @ repo @ ''-'' @ tag) filePaths
                             (\<lambda>w. w) w2))))"

section \<open>A simulated environment\<close>

text \<open>
  A small concrete environment on which the operations can be run: a file store
  that maps a path to a regular file with its content or to a directory, and the
  list of the URLs requested so far, the latest first. Permissions and parent
  directories are not part of the store.
\<close>

datatype node = RegularFile string | Directory

record world =
  files :: "string \<rightharpoonup> node"
  requests :: "string list"

definition fs_Stat :: "string \<Rightarrow> world \<Rightarrow> error option" where
  "fs_Stat path w =
     (case files w path of
        None \<Rightarrow> Some (External ''no such file or directory'')
      | Some n \<Rightarrow> None)"

definition fs_ReadFile :: "string \<Rightarrow> world \<Rightarrow> error + string" where
  "fs_ReadFile path w =
     (case files w path of
        None \<Rightarrow> Inl (External ''no such file or directory'')
      | Some Directory \<Rightarrow> Inl (External ''is a directory'')
      | Some (RegularFile content) \<Rightarrow> Inr content)"

definition fs_WriteFile :: "string \<Rightarrow> string \<Rightarrow> world \<Rightarrow> error option \<times> world" where
  "fs_WriteFile path content w =
     (case files w path of
        Some Directory \<Rightarrow> (Some (External ''is a directory''), w)
      | _ \<Rightarrow> (None, w\<lparr>files := (files w)(path \<mapsto> RegularFile content)\<rparr>))"

definition fs_MkdirAll :: "string \<Rightarrow> world \<Rightarrow> error option \<times> world" where
  "fs_MkdirAll path w =
     (case files w path of
        Some (RegularFile content) \<Rightarrow> (Some (External ''not a directory''), w)
      | _ \<Rightarrow> (None, w\<lparr>files := (files w)(path \<mapsto> Directory)\<rparr>))"

definition fs_Append :: "string \<Rightarrow> string \<Rightarrow> world \<Rightarrow> error option \<times> world" where
  "fs_Append path bytes w =
     (case files w path of
        Some (RegularFile content) \<Rightarrow>
          (None, w\<lparr>files := (files w)(path \<mapsto> RegularFile (content @ bytes))\<rparr>)
      | _ \<Rightarrow> (Some (External ''bad file descriptor''), w))"

definition fs_Move :: "string \<Rightarrow> string \<Rightarrow> world \<Rightarrow> error option \<times> world" where
  "fs_Move source target w =
     (case files w source of
        None \<Rightarrow> (Some (External ''no such file or directory''), w)
      | Some n \<Rightarrow> (None, w\<lparr>files := ((files w)(source := None))(target \<mapsto> n)\<rparr>))"

text \<open>
  The simulated environment answers every GitHub call with \<open>latest\<close> and every
  HTTP request with \<open>net\<close> of its URL. A regular file whose content begins with
  \<open>GZ\<close> stands for a gzip stream of the bytes that follow, and for a tar reader
  these bytes are an archive without entries; any other file has an invalid gzip
  header. There are no zip archives. Links cannot be made, the deadline never
  passes, and the first pending goroutine always finishes first.
\<close>

definition fs_gunzip :: "string \<Rightarrow> world \<Rightarrow> error + string" where
  "fs_gunzip path w =
     (case files w path of
        Some (RegularFile content) \<Rightarrow>
          if take 2 content = ''GZ'' then Inr (drop 2 content)
          else Inl (External ''gzip: invalid header'')
      | _ \<Rightarrow> Inl (External ''gzip: invalid header''))"

definition sim ::
  "((int option \<times> error) + RepositoryRelease) \<Rightarrow> (string \<Rightarrow> error + Response) \<Rightarrow> world sys" where
  "sim latest net =
     \<lparr>GOOS = ''linux'',
      GOARCH = ''amd64'',
      api_GetLatestRelease = (\<lambda>owner repo w. (latest, w)),
      api_GetReleaseByTag = (\<lambda>owner repo tag w. (latest, w)),
      http_Get = (\<lambda>url w. (net url, w\<lparr>requests := url # requests w\<rparr>)),
      os_Stat = fs_Stat,
      os_ReadFile = fs_ReadFile,
      os_WriteFile = fs_WriteFile,
      os_MkdirAll = fs_MkdirAll,
      os_Create = (\<lambda>path. fs_WriteFile path []),
      os_Open = fs_Stat,
      os_Chmod = (\<lambda>path mode w. (None, w)),
      os_Symlink = (\<lambda>target path w. (Some (External ''operation not permitted''), w)),
      os_Link = (\<lambda>target path w. (Some (External ''operation not permitted''), w)),
      buf_Write = fs_Append,
      buf_Flush = (\<lambda>path w. (None, w)),
      file_Close = (\<lambda>path w. w),
      gzip_Reader = (\<lambda>path w. map_sum id Inr (fs_gunzip path w)),
      gzip_tar_Reader = (\<lambda>path w. map_sum id (\<lambda>bytes. []) (fs_gunzip path w)),
      io_Copy = fs_Append,
      extractZip = (\<lambda>path w. (Inl (External ''zip: not a valid zip file''), w)),
      moveFile = fs_Move,
      ctx_Done = (\<lambda>w. False),
      next_done = (\<lambda>pending w. 0)\<rparr>"

text \<open>
  A scenario on the simulated environment: a release of three assets, of which one
  is answered with status 200 and a body, one with status 204, and one not at all.
\<close>

definition demo_opts :: Options where
  "demo_opts =
     \<lparr>Concurrency = 5, BufferSize = 4096, CacheDir = ''/cache'', AutoExtract = True,
      TargetDir = [], DownloadSource = True, CheckLatest = True\<rparr>"

definition empty_world :: world where
  "empty_world = \<lparr>files = Map.empty, requests = []\<rparr>"

definition demo_net :: "string \<Rightarrow> error + Response" where
  "demo_net url =
     (if url = ''https://example.com/tool.tgz''
      then Inr \<lparr>StatusCode = 200, ContentLength = 5, Body = [(''hello'', NoErr), ([], EOF)]\<rparr>
      else if url = ''https://example.com/tool.sha256''
      then Inr \<lparr>StatusCode = 204, ContentLength = 0, Body = []\<rparr>
      else if url = ''https://github.com/acme/tool/archive/refs/tags/v1.0.0.tar.gz''
      then Inr \<lparr>StatusCode = 200, ContentLength = 3, Body = [(''src'', EOF)]\<rparr>
      else Inl (External ''no such host''))"

definition demo_release :: RepositoryRelease where
  "demo_release =
     \<lparr>TagName = ''v1.0.0'', ReleaseName = ''first'', Assets =
        [\<lparr>Name = ''tool-darwin-arm64.zip'', Size = 7,
          BrowserDownloadURL = ''https://example.com/tool.zip''\<rparr>,
         \<lparr>Name = ''tool-linux-amd64.sha256'', Size = 64,
          BrowserDownloadURL = ''https://example.com/tool.sha256''\<rparr>,
         \<lparr>Name = ''tool-linux-amd64.tgz'', Size = 5,
          BrowserDownloadURL = ''https://example.com/tool.tgz''\<rparr>]\<rparr>"

definition demo :: "world sys" where
  "demo = sim (Inr demo_release) demo_net"

text \<open>A world that holds a source archive and an asset archive, both valid.\<close>

definition archive_world :: world where
  "archive_world =
     \<lparr>files = [''/cache/acme-tool-v1.0.0.tar.gz'' \<mapsto> RegularFile ''GZtarball'',
               ''/cache/tool-linux-amd64.tgz'' \<mapsto> RegularFile ''GZtarball''],
      requests = []\<rparr>"

text \<open>
  A second scenario: the repository \<open>cli/cli\<close> with a release whose only asset
  is named \<open>cli-cli\<close>.
\<close>

definition cli_release :: RepositoryRelease where
  "cli_release =
     \<lparr>TagName = ''v2.0.0'', ReleaseName = ''second'', Assets =
        [\<lparr>Name = ''cli-cli'', Size = 5,
          BrowserDownloadURL = ''https://example.com/tool.tgz''\<rparr>]\<rparr>"

definition cli :: "world sys" where
  "cli = sim (Inr cli_release) demo_net"

section \<open>Paths of single elements\<close>

text \<open>
  A path element that \<open>filepath.Clean\<close> keeps as it is: not empty, not \<open>.\<close> or
  \<open>..\<close>, and without separator. \<open>join_prefix d\<close> is what \<open>filepath.Join\<close> puts
  before such an element when it joins it to the directory \<open>d\<close>.
\<close>

definition plain_element :: "string \<Rightarrow> bool" where
  "plain_element e = (e \<noteq> [] \<and> e \<noteq> ''.'' \<and> e \<noteq> ''..'' \<and> CHR ''/'' \<notin> set e)"

definition join_prefix :: "string \<Rightarrow> string" where
  "join_prefix d =
     (if d = [] then []
      else
        (let rooted = IsPathSeparator (hd d);
             out = foldl (clean_step rooted) [] (split_sep d)
         in (if rooted then ''/'' else []) @ (if out = [] then [] else join_sep out @ ''/'')))"

section \<open>The version comparison in the words of the specification\<close>

text \<open>A version with one leading \<open>v\<close> removed, if it has one.\<close>

definition strip_v :: "string \<Rightarrow> string" where
  "strip_v version =
     (case version of
        [] \<Rightarrow> []
      | c # rest \<Rightarrow> if c = CHR ''v'' then rest else version)"

section \<open>Properties of the library functions\<close>

lemma Contains_sublist: "Contains s substr \<longleftrightarrow> sublist substr s"
  by (induction s) (auto simp: sublist_Cons_right)

lemma aliasLoop_list_ex:
  "aliasLoop lowerName aliases \<longleftrightarrow> list_ex (\<lambda>alias. sublist alias lowerName) aliases"
  by (induction aliases) (auto simp: Contains_sublist)

section \<open>Properties of the asset selection\<close>

lemma osMatched_aliases:
  "osMatched currentOS lowerName \<longleftrightarrow>
     list_ex (\<lambda>alias. sublist alias lowerName) (os_aliases currentOS)"
  by (simp add: osMatched_def os_aliases_def aliasLoop_list_ex Contains_sublist
      split: option.split)

lemma archMatched_aliases:
  "archMatched currentArch lowerName \<longleftrightarrow>
     list_ex (\<lambda>alias. sublist alias lowerName) (arch_aliases currentArch)"
  by (simp add: archMatched_def arch_aliases_def aliasLoop_list_ex Contains_sublist
      split: option.split)

lemma matchLoop_filter:
  "matchLoop currentOS currentArch assets matchedAssets =
     matchedAssets @ filter (\<lambda>a. platform_match currentOS currentArch (Name a)) assets"
  by (induction assets arbitrary: matchedAssets)
     (simp_all add: platform_match_def osMatched_aliases archMatched_aliases Let_def)

text \<open>
  Claim C3. On a release with at least two assets, \<open>getReleaseAssets\<close> returns the
  assets whose lower-cased name contains an alias of the running operating system and
  an alias of the running architecture, in their original order, when there is such
  an asset; when there is none, it returns the list holding only the first asset.
\<close>

theorem getReleaseAssets_platform_filter:
  assumes "2 \<le> length (Assets release)"
  shows "getReleaseAssets currentOS currentArch release =
           (let matched = filter (\<lambda>a. platform_match currentOS currentArch (Name a))
                            (Assets release)
            in if matched \<noteq> [] then matched else [hd (Assets release)])"
proof -
  from assms have "Assets release \<noteq> []" by auto
  then have "Assets release ! 0 = hd (Assets release)"
    by (simp add: hd_conv_nth)
  with assms show ?thesis
    by (simp add: getReleaseAssets_def matchLoop_filter Let_def)
qed

theorem getReleaseAssets_platform_filter_witness:
  "2 \<le> length (Assets demo_release) \<and>
   getReleaseAssets ''linux'' ''amd64'' demo_release =
     [\<lparr>Name = ''tool-linux-amd64.sha256'', Size = 64,
       BrowserDownloadURL = ''https://example.com/tool.sha256''\<rparr>,
      \<lparr>Name = ''tool-linux-amd64.tgz'', Size = 5,
       BrowserDownloadURL = ''https://example.com/tool.tgz''\<rparr>] \<and>
   getReleaseAssets ''windows'' ''amd64'' demo_release =
     [\<lparr>Name = ''tool-darwin-arm64.zip'', Size = 7,
       BrowserDownloadURL = ''https://example.com/tool.zip''\<rparr>]"
proof -
  have len: "2 \<le> length (Assets demo_release)"
    by (simp add: demo_release_def)
  have linux: "filter (\<lambda>a. platform_match ''linux'' ''amd64'' (Name a)) (Assets demo_release) =
      [\<lparr>Name = ''tool-linux-amd64.sha256'', Size = 64,
        BrowserDownloadURL = ''https://example.com/tool.sha256''\<rparr>,
       \<lparr>Name = ''tool-linux-amd64.tgz'', Size = 5,
        BrowserDownloadURL = ''https://example.com/tool.tgz''\<rparr>]"
    by code_simp
  have windows:
    "filter (\<lambda>a. platform_match ''windows'' ''amd64'' (Name a)) (Assets demo_release) = []"
    by code_simp
  have first: "hd (Assets demo_release) =
      \<lparr>Name = ''tool-darwin-arm64.zip'', Size = 7,
       BrowserDownloadURL = ''https://example.com/tool.zip''\<rparr>"
    by (simp add: demo_release_def)
  from getReleaseAssets_platform_filter [OF len, of "''linux''" "''amd64''"] linux
  have 1: "getReleaseAssets ''linux'' ''amd64'' demo_release =
     [\<lparr>Name = ''tool-linux-amd64.sha256'', Size = 64,
       BrowserDownloadURL = ''https://example.com/tool.sha256''\<rparr>,
      \<lparr>Name = ''tool-linux-amd64.tgz'', Size = 5,
       BrowserDownloadURL = ''https://example.com/tool.tgz''\<rparr>]"
    by (simp add: Let_def)
  from getReleaseAssets_platform_filter [OF len, of "''windows''" "''amd64''"] windows first
  have 2: "getReleaseAssets ''windows'' ''amd64'' demo_release =
     [\<lparr>Name = ''tool-darwin-arm64.zip'', Size = 7,
       BrowserDownloadURL = ''https://example.com/tool.zip''\<rparr>]"
    by (simp add: Let_def)
  from len 1 2 show ?thesis
    by blast
qed

text \<open>
  Claim C4. On a release with no asset or a single asset, \<open>getReleaseAssets\<close>
  returns the asset list as it is, whatever the platform.
\<close>

theorem getReleaseAssets_small_identity:
  assumes "length (Assets release) \<le> 1"
  shows "getReleaseAssets currentOS currentArch release = Assets release"
  using assms by (simp add: getReleaseAssets_def)


theorem getReleaseAssets_small_identity_witness:
  "length (Assets \<lparr>TagName = ''v1.0.0'', ReleaseName = ''first'', Assets =
       [\<lparr>Name = ''tool-darwin-arm64.zip'', Size = 7,
         BrowserDownloadURL = ''https://example.com/tool.zip''\<rparr>]\<rparr>) \<le> 1 \<and>
   getReleaseAssets ''linux'' ''amd64''
     \<lparr>TagName = ''v1.0.0'', ReleaseName = ''first'', Assets =
       [\<lparr>Name = ''tool-darwin-arm64.zip'', Size = 7,
         BrowserDownloadURL = ''https://example.com/tool.zip''\<rparr>]\<rparr> =
     [\<lparr>Name = ''tool-darwin-arm64.zip'', Size = 7,
       BrowserDownloadURL = ''https://example.com/tool.zip''\<rparr>]"
  using getReleaseAssets_small_identity
    [of "\<lparr>TagName = ''v1.0.0'', ReleaseName = ''first'', Assets =
       [\<lparr>Name = ''tool-darwin-arm64.zip'', Size = 7,
         BrowserDownloadURL = ''https://example.com/tool.zip''\<rparr>]\<rparr>" "''linux''" "''amd64''"]
  by simp

section \<open>Properties of the release resolver\<close>

text \<open>
  Claim C8. With a non-empty tag, \<open>getSourceCodeURL\<close> returns the string
  \<open>https://github.com/{owner}/{repo}/archive/refs/tags/{tag}.tar.gz\<close> whatever the
  environment is and leaves the world as it was: it makes no call. With an empty tag
  it resolves the latest release first and uses its tag in the same string; when the
  resolution fails, it returns the error of the resolution.
\<close>

theorem getSourceCodeURL_string:
  "(tag \<noteq> [] \<longrightarrow>
      getSourceCodeURL s owner repo tag w =
        (Inr (''https://github.com/'' @ owner @ ''/'' @ repo @ ''/archive/refs/tags/'' @
              tag @ ''.tar.gz''), w)) \<and>
   (tag = [] \<and> getLatestRelease s owner repo w = (Inr release, w') \<longrightarrow>
      getSourceCodeURL s owner repo tag w =
        (Inr (''https://github.com/'' @ owner @ ''/'' @ repo @ ''/archive/refs/tags/'' @
              TagName release @ ''.tar.gz''), w')) \<and>
   (tag = [] \<and> getLatestRelease s owner repo w = (Inl e, w') \<longrightarrow>
      getSourceCodeURL s owner repo tag w = (Inl e, w'))"
  by (simp add: getSourceCodeURL_def sourceCodeURL_def)

theorem getSourceCodeURL_string_witness:
  "getSourceCodeURL demo ''acme'' ''tool'' ''v0.9.0'' empty_world =
     (Inr ''https://github.com/acme/tool/archive/refs/tags/v0.9.0.tar.gz'', empty_world) \<and>
   getSourceCodeURL demo ''acme'' ''tool'' [] empty_world =
     (Inr ''https://github.com/acme/tool/archive/refs/tags/v1.0.0.tar.gz'', empty_world) \<and>
   getSourceCodeURL (sim (Inl (Some 404, External ''Not Found'')) demo_net)
       ''acme'' ''tool'' [] empty_world =
     (Inl (NoRelease ''acme'' ''tool''), empty_world)"
proof -
  have latest: "getLatestRelease demo ''acme'' ''tool'' empty_world = (Inr demo_release, empty_world)"
    by (simp add: getLatestRelease_def demo_def sim_def)
  have none: "getLatestRelease (sim (Inl (Some 404, External ''Not Found'')) demo_net)
      ''acme'' ''tool'' empty_world = (Inl (NoRelease ''acme'' ''tool''), empty_world)"
    by (simp add: getLatestRelease_def sim_def)
  from getSourceCodeURL_string [of "''v0.9.0''" demo "''acme''" "''tool''" empty_world]
  have 1: "getSourceCodeURL demo ''acme'' ''tool'' ''v0.9.0'' empty_world =
     (Inr ''https://github.com/acme/tool/archive/refs/tags/v0.9.0.tar.gz'', empty_world)"
    by simp
  from getSourceCodeURL_string
    [of "[]" demo "''acme''" "''tool''" empty_world demo_release empty_world] latest
  have 2: "getSourceCodeURL demo ''acme'' ''tool'' [] empty_world =
     (Inr ''https://github.com/acme/tool/archive/refs/tags/v1.0.0.tar.gz'', empty_world)"
    by (simp add: demo_release_def)
  from getSourceCodeURL_string
    [of "[]" "sim (Inl (Some 404, External ''Not Found'')) demo_net" "''acme''" "''tool''"
        empty_world _ empty_world "NoRelease ''acme'' ''tool''"] none
  have 3: "getSourceCodeURL (sim (Inl (Some 404, External ''Not Found'')) demo_net)
       ''acme'' ''tool'' [] empty_world = (Inl (NoRelease ''acme'' ''tool''), empty_world)"
    by simp
  from 1 2 3 show ?thesis
    by blast
qed

lemma TrimPrefix_v: "TrimPrefix version ''v'' = strip_v version"
  by (cases version) (simp_all add: TrimPrefix_def strip_v_def)

text \<open>
  Claim C10. When the latest release is resolved, \<open>IsLatestVersion\<close> returns true
  exactly when the current version and the tag of the latest release are equal after
  one leading \<open>v\<close> is removed from each, if present; when the resolution fails, it
  returns the error.
\<close>

theorem IsLatestVersion_strips_v:
  "(getLatestRelease s owner repo w = (Inr release, w') \<longrightarrow>
      IsLatestVersion s owner repo currentVersion w =
        (Inr (strip_v currentVersion = strip_v (TagName release)), w')) \<and>
   (getLatestRelease s owner repo w = (Inl e, w') \<longrightarrow>
      IsLatestVersion s owner repo currentVersion w = (Inl e, w'))"
  by (simp add: IsLatestVersion_def getLatestTagName_def TrimPrefix_v)

theorem IsLatestVersion_strips_v_witness:
  "IsLatestVersion demo ''acme'' ''tool'' ''1.0.0'' empty_world = (Inr True, empty_world) \<and>
   IsLatestVersion demo ''acme'' ''tool'' ''v1.0.0'' empty_world = (Inr True, empty_world) \<and>
   IsLatestVersion demo ''acme'' ''tool'' ''v1.0.1'' empty_world = (Inr False, empty_world)"
proof -
  have latest: "getLatestRelease demo ''acme'' ''tool'' empty_world = (Inr demo_release, empty_world)"
    by (simp add: getLatestRelease_def demo_def sim_def)
  have tag: "strip_v (TagName demo_release) = ''1.0.0''"
    by (simp add: demo_release_def strip_v_def)
  note run = IsLatestVersion_strips_v
    [where s = demo and owner = "''acme''" and repo = "''tool''" and w = empty_world
       and release = demo_release and w' = empty_world]
  from run [where currentVersion = "''1.0.0''"] latest tag
  have 1: "IsLatestVersion demo ''acme'' ''tool'' ''1.0.0'' empty_world = (Inr True, empty_world)"
    by (simp add: strip_v_def)
  from run [where currentVersion = "''v1.0.0''"] latest tag
  have 2: "IsLatestVersion demo ''acme'' ''tool'' ''v1.0.0'' empty_world = (Inr True, empty_world)"
    by (simp add: strip_v_def)
  from run [where currentVersion = "''v1.0.1''"] latest tag
  have 3: "IsLatestVersion demo ''acme'' ''tool'' ''v1.0.1'' empty_world = (Inr False, empty_world)"
    by (simp add: strip_v_def)
  from 1 2 3 show ?thesis
    by blast
qed

section \<open>Properties of the cache and version tracker\<close>

text \<open>
  Claim C5. In the file store, once the record file of an owner and repository has
  been written with a tag, the test on the cached version holds for that tag and for
  no other: the test compares the whole content of the record file with the
  candidate tag, without removing any prefix.
\<close>

theorem cache_record_then_current:
  assumes "os_Stat s = fs_Stat" and "os_ReadFile s = fs_ReadFile"
    and "os_WriteFile s = fs_WriteFile" and "CheckLatest opts"
    and "fst (os_WriteFile s (cacheVersionPath opts owner repo) tagName w) = None"
  shows "cacheIsCurrent s opts owner repo candidate (updateCache s opts owner repo tagName w)
           \<longleftrightarrow> candidate = tagName"
  using assms
  by (auto simp: cacheIsCurrent_def updateCache_def fs_Stat_def fs_ReadFile_def fs_WriteFile_def
      split: option.splits node.splits)

theorem cache_record_then_current_witness:
  "cacheIsCurrent demo demo_opts ''acme'' ''tool'' ''v1.0.0''
     (updateCache demo demo_opts ''acme'' ''tool'' ''v1.0.0'' empty_world) \<and>
   \<not> cacheIsCurrent demo demo_opts ''acme'' ''tool'' ''1.0.0''
     (updateCache demo demo_opts ''acme'' ''tool'' ''v1.0.0'' empty_world)"
proof -
  have prims: "os_Stat demo = fs_Stat" "os_ReadFile demo = fs_ReadFile"
    "os_WriteFile demo = fs_WriteFile"
    by (simp_all add: demo_def sim_def)
  have check: "CheckLatest demo_opts"
    by (simp add: demo_opts_def)
  have written: "fst (os_WriteFile demo (cacheVersionPath demo_opts ''acme'' ''tool'')
      ''v1.0.0'' empty_world) = None"
    by (simp add: prims fs_WriteFile_def empty_world_def)
  note after = cache_record_then_current [OF prims check written]
  from after [of "''v1.0.0''"] after [of "''1.0.0''"] show ?thesis
    by simp
qed

section \<open>Properties of the download orchestrator\<close>

lemma collectLoop_filter:
  "collectLoop results filePaths errors =
     (filePaths @ map res_filePath (filter (\<lambda>r. res_err r = None) results),
      errors @ map (\<lambda>r. the (res_err r)) (filter (\<lambda>r. res_err r \<noteq> None) results))"
  by (induction results arbitrary: filePaths errors) (auto split: option.splits)

lemma goroutines_length: "length (fst (goroutines s opts pending w)) = length pending"
proof (induction s opts pending w rule: goroutines.induct)
  case (1 s opts w)
  show ?case by simp
next
  case (2 s opts a as w)
  have "next_done s (a # as) w mod Suc (length as) < Suc (length as)"
    by (rule mod_less_divisor) simp
  with 2 [OF refl refl refl] show ?case
    by (auto simp: Let_def min_def)
qed

text \<open>
  Claim C2. With a positive concurrency limit and a non-empty asset list,
  \<open>downloadAssets\<close> receives one result for each asset. When every result carries
  an error, it returns the error that wraps the error of the first result received,
  and no path; when some result carries no error, it returns the paths of exactly
  those results, in the order received, and no error, however many others failed.
\<close>

theorem downloadAssets_partial_failure:
  assumes "assets \<noteq> []" and "0 < Concurrency opts"
    and "goroutines s opts assets w = (results, w')"
  shows "length results = length assets \<and>
     ((\<forall>r \<in> set results. res_err r \<noteq> None) \<longrightarrow>
        downloadAssets s opts assets w =
          Some (Inl (AllAssetsFailed (the (res_err (hd results)))), w')) \<and>
     ((\<exists>r \<in> set results. res_err r = None) \<longrightarrow>
        downloadAssets s opts assets w =
          Some (Inr (map res_filePath (filter (\<lambda>r. res_err r = None) results)), w'))"
proof -
  from assms(3) goroutines_length [of s opts assets w]
  have len: "length results = length assets" by simp
  with assms(1) have ne: "results \<noteq> []" by auto
  have all: "downloadAssets s opts assets w =
          Some (Inl (AllAssetsFailed (the (res_err (hd results)))), w')"
    if "\<forall>r \<in> set results. res_err r \<noteq> None"
  proof -
    from that have "filter (\<lambda>r. res_err r \<noteq> None) results = results"
      "filter (\<lambda>r. res_err r = None) results = []"
      by (simp_all add: filter_empty_conv)
    with ne assms show ?thesis
      by (simp add: downloadAssets_def collectLoop_filter Let_def nth_map hd_conv_nth)
  qed
  have some: "downloadAssets s opts assets w =
          Some (Inr (map res_filePath (filter (\<lambda>r. res_err r = None) results)), w')"
    if "\<exists>r \<in> set results. res_err r = None"
  proof -
    from that have "filter (\<lambda>r. res_err r = None) results \<noteq> []"
      by (simp add: filter_empty_conv)
    with assms show ?thesis
      by (simp add: downloadAssets_def collectLoop_filter Let_def)
  qed
  from len all some show ?thesis by blast
qed

theorem downloadAssets_partial_failure_witness:
  "downloadAssets demo demo_opts (Assets demo_release) empty_world =
     Some (Inr [''/cache/tool-linux-amd64.tgz''],
           snd (goroutines demo demo_opts (Assets demo_release) empty_world)) \<and>
   downloadAssets demo demo_opts (take 2 (Assets demo_release)) empty_world =
     Some (Inl (AllAssetsFailed (DownloadAssetFailed ''tool-darwin-arm64.zip''
                  (SendRequestFailed (External ''no such host'')))),
           snd (goroutines demo demo_opts (take 2 (Assets demo_release)) empty_world))"
proof -
  have limit: "0 < Concurrency demo_opts"
    by (simp add: demo_opts_def)
  have three: "Assets demo_release \<noteq> []" and two: "take 2 (Assets demo_release) \<noteq> []"
    by (simp_all add: demo_release_def)
  have run3: "fst (goroutines demo demo_opts (Assets demo_release) empty_world) =
     [\<lparr>res_filePath = [], res_err = Some (DownloadAssetFailed ''tool-darwin-arm64.zip''
          (SendRequestFailed (External ''no such host'')))\<rparr>,
      \<lparr>res_filePath = [], res_err = Some (DownloadAssetFailed ''tool-linux-amd64.sha256''
          (BadStatus 204))\<rparr>,
      \<lparr>res_filePath = ''/cache/tool-linux-amd64.tgz'', res_err = None\<rparr>]"
    by code_simp
  have run2: "fst (goroutines demo demo_opts (take 2 (Assets demo_release)) empty_world) =
     [\<lparr>res_filePath = [], res_err = Some (DownloadAssetFailed ''tool-darwin-arm64.zip''
          (SendRequestFailed (External ''no such host'')))\<rparr>,
      \<lparr>res_filePath = [], res_err = Some (DownloadAssetFailed ''tool-linux-amd64.sha256''
          (BadStatus 204))\<rparr>]"
    by code_simp
  from downloadAssets_partial_failure
    [where s = demo and w = empty_world, OF three limit prod.collapse [symmetric]]
  have 1: "downloadAssets demo demo_opts (Assets demo_release) empty_world =
     Some (Inr [''/cache/tool-linux-amd64.tgz''],
           snd (goroutines demo demo_opts (Assets demo_release) empty_world))"
    unfolding run3 by simp
  from downloadAssets_partial_failure
    [where s = demo and w = empty_world, OF two limit prod.collapse [symmetric]]
  have 2: "downloadAssets demo demo_opts (take 2 (Assets demo_release)) empty_world =
     Some (Inl (AllAssetsFailed (DownloadAssetFailed ''tool-darwin-arm64.zip''
                  (SendRequestFailed (External ''no such host'')))),
           snd (goroutines demo demo_opts (take 2 (Assets demo_release)) empty_world))"
    unfolding run2 by simp
  from 1 2 show ?thesis
    by blast
qed

section \<open>Properties of the buffered transfer\<close>

lemma copyLoop_observed:
  assumes "\<And>p b w. issued (snd (buf_Write s p b w)) = issued w"
  shows "issued (snd (copyLoop s path reads w)) = issued w"
proof (induction reads arbitrary: w)
  case Nil
  show ?case by simp
next
  case (Cons r reads)
  obtain b e where r: "r = (b, e)" by (cases r)
  show ?case
  proof (cases "buf_Write s path b w")
    case (Pair res w')
    with assms [of path b w] have "issued w' = issued w" by simp
    with Pair Cons.IH [of w'] r show ?thesis
      by (simp split: read_err.split option.split)
  qed
qed

lemma copyLoop_not_status: "fst (copyLoop s path reads w) \<noteq> Some (BadStatus n)"
proof (induction reads arbitrary: w)
  case Nil
  show ?case by simp
next
  case (Cons r reads)
  obtain b e where r: "r = (b, e)" by (cases r)
  show ?case
  proof (cases "buf_Write s path b w")
    case (Pair res w')
    with Cons.IH [of w'] r show ?thesis
      by (simp split: read_err.split option.split)
  qed
qed

lemma deferred_observed:
  assumes "\<And>p w. issued (snd (buf_Flush s p w)) = issued w"
    and "\<And>p w. issued (file_Close s p w) = issued w"
  shows "issued (deferred s path w) = issued w"
  by (simp add: deferred_def assms)

lemma downloadWithBuffer_observed:
  assumes hget: "\<And>u w. issued (snd (http_Get s u w)) = Suc (issued w)"
    and hcreate: "\<And>p w. issued (snd (os_Create s p w)) = issued w"
    and hwrite: "\<And>p b w. issued (snd (buf_Write s p b w)) = issued w"
    and hflush: "\<And>p w. issued (snd (buf_Flush s p w)) = issued w"
    and hclose: "\<And>p w. issued (file_Close s p w) = issued w"
  shows "issued (snd (downloadWithBuffer s opts url path w)) =
           (if fst (os_Create s path w) = None then Suc (issued w) else issued w)"
proof (cases "os_Create s path w")
  case c: (Pair cres w1)
  from hcreate [of path w] c have w1: "issued w1 = issued w" by simp
  show ?thesis
  proof (cases cres)
    case (Some e)
    with c w1 show ?thesis by (simp add: downloadWithBuffer_def)
  next
    case None
    obtain gres w2 where g: "http_Get s url w1 = (gres, w2)" by (cases "http_Get s url w1")
    from hget [of url w1] g w1 have w2: "issued w2 = Suc (issued w)" by simp
    note d = deferred_observed [of issued s, OF hflush hclose]
    show ?thesis
    proof (cases gres)
      case (Inl e)
      with c None g w2 d show ?thesis by (simp add: downloadWithBuffer_def)
    next
      case (Inr resp)
      let ?reads = "if BufferSize opts = 0 then [] else Body resp"
      obtain lres w3 where l: "copyLoop s path ?reads w2 = (lres, w3)"
        by (cases "copyLoop s path ?reads w2")
      from copyLoop_observed [of issued s path ?reads w2, OF hwrite] l w2
      have w3: "issued w3 = Suc (issued w)" by simp
      obtain fres w4 where f: "buf_Flush s path w3 = (fres, w4)" by (cases "buf_Flush s path w3")
      from hflush [of path w3] f w3 have w4: "issued w4 = Suc (issued w)" by simp
      from c None g Inr l f w2 w3 w4 d show ?thesis
        by (simp add: downloadWithBuffer_def split: option.split)
    qed
  qed
qed

lemma downloadWithBuffer_status:
  assumes "os_Create s path w = (None, w1)" and "http_Get s url w1 = (Inr resp, w2)"
  shows "(StatusCode resp \<noteq> 200 \<longrightarrow>
            fst (downloadWithBuffer s opts url path w) = Some (BadStatus (StatusCode resp))) \<and>
         (StatusCode resp = 200 \<longrightarrow>
            fst (downloadWithBuffer s opts url path w) \<noteq> Some (BadStatus n))"
proof -
  let ?reads = "if BufferSize opts = 0 then [] else Body resp"
  obtain lres w3 where l: "copyLoop s path ?reads w2 = (lres, w3)"
    by (cases "copyLoop s path ?reads w2")
  with copyLoop_not_status [of s path ?reads w2 n]
  have "lres \<noteq> Some (BadStatus n)" by simp
  with assms l show ?thesis
    by (auto simp: downloadWithBuffer_def split: option.split prod.split)
qed

text \<open>
  Claim C7, as amended. Let the number of requests issued be any observation of the
  world that every \<open>http_Get\<close> raises by one and that the file operations of the
  transfer leave as it is. Then \<open>downloadWithBuffer\<close> issues exactly one request
  when the destination file can be created, and none when it cannot. When the file
  is created and the request is answered, a status other than 200 makes the transfer
  return the status error, with no second request, and the status 200 never gives a
  status error.
\<close>

theorem downloadWithBuffer_single_get:
  assumes "\<And>u w. issued (snd (http_Get s u w)) = Suc (issued w)"
    and "\<And>p w. issued (snd (os_Create s p w)) = issued w"
    and "\<And>p b w. issued (snd (buf_Write s p b w)) = issued w"
    and "\<And>p w. issued (snd (buf_Flush s p w)) = issued w"
    and "\<And>p w. issued (file_Close s p w) = issued w"
  shows "issued (snd (downloadWithBuffer s opts url path w)) =
           (if fst (os_Create s path w) = None then Suc (issued w) else issued w) \<and>
         (os_Create s path w = (None, w1) \<and> http_Get s url w1 = (Inr resp, w2) \<longrightarrow>
            (StatusCode resp \<noteq> 200 \<longrightarrow>
               fst (downloadWithBuffer s opts url path w) =
                 Some (BadStatus (StatusCode resp))) \<and>
            (StatusCode resp = 200 \<longrightarrow>
               fst (downloadWithBuffer s opts url path w) \<noteq> Some (BadStatus n)))"
  using downloadWithBuffer_observed [of issued s opts url path w, OF assms]
    downloadWithBuffer_status [of s path w w1 url resp w2 opts n]
  by blast

lemma demo_observed:
  "length (requests (snd (http_Get demo u w))) = Suc (length (requests w))"
  "length (requests (snd (os_Create demo p w))) = length (requests w)"
  "length (requests (snd (buf_Write demo p b w))) = length (requests w)"
  "length (requests (snd (buf_Flush demo p w))) = length (requests w)"
  "length (requests (file_Close demo p w)) = length (requests w)"
  by (simp_all add: demo_def sim_def fs_WriteFile_def fs_Append_def
      split: option.split node.split)

theorem downloadWithBuffer_single_get_witness:
  "length (requests (snd (downloadWithBuffer demo demo_opts
       ''https://example.com/tool.tgz'' ''/cache/tool.tgz'' empty_world))) = 1 \<and>
   fst (downloadWithBuffer demo demo_opts
       ''https://example.com/tool.tgz'' ''/cache/tool.tgz'' empty_world) \<noteq> Some (BadStatus 200) \<and>
   length (requests (snd (downloadWithBuffer demo demo_opts
       ''https://example.com/tool.sha256'' ''/cache/tool.sha256'' empty_world))) = 1 \<and>
   fst (downloadWithBuffer demo demo_opts
       ''https://example.com/tool.sha256'' ''/cache/tool.sha256'' empty_world) =
     Some (BadStatus 204)"
proof -
  let ?w1 = "empty_world\<lparr>files := (files empty_world)(''/cache/tool.tgz'' \<mapsto> RegularFile [])\<rparr>"
  let ?w1' = "empty_world\<lparr>files := (files empty_world)(''/cache/tool.sha256'' \<mapsto> RegularFile [])\<rparr>"
  have c: "os_Create demo ''/cache/tool.tgz'' empty_world = (None, ?w1)"
    by (simp add: demo_def sim_def fs_WriteFile_def empty_world_def)
  have c': "os_Create demo ''/cache/tool.sha256'' empty_world = (None, ?w1')"
    by (simp add: demo_def sim_def fs_WriteFile_def empty_world_def)
  have g: "http_Get demo ''https://example.com/tool.tgz'' ?w1 =
      (Inr \<lparr>StatusCode = 200, ContentLength = 5, Body = [(''hello'', NoErr), ([], EOF)]\<rparr>,
       ?w1\<lparr>requests := ''https://example.com/tool.tgz'' # requests ?w1\<rparr>)"
    by (simp add: demo_def sim_def demo_net_def)
  have g': "http_Get demo ''https://example.com/tool.sha256'' ?w1' =
      (Inr \<lparr>StatusCode = 204, ContentLength = 0, Body = []\<rparr>,
       ?w1'\<lparr>requests := ''https://example.com/tool.sha256'' # requests ?w1'\<rparr>)"
    by (simp add: demo_def sim_def demo_net_def)
  note t = downloadWithBuffer_single_get
    [of "\<lambda>w. length (requests w)" demo, OF demo_observed]
  from t [of demo_opts "''https://example.com/tool.tgz''" "''/cache/tool.tgz''" empty_world
      ?w1 _ _ 200] c g
  have 1: "length (requests (snd (downloadWithBuffer demo demo_opts
       ''https://example.com/tool.tgz'' ''/cache/tool.tgz'' empty_world))) = 1 \<and>
   fst (downloadWithBuffer demo demo_opts
       ''https://example.com/tool.tgz'' ''/cache/tool.tgz'' empty_world) \<noteq> Some (BadStatus 200)"
    by (simp add: empty_world_def)
  from t [of demo_opts "''https://example.com/tool.sha256''" "''/cache/tool.sha256''" empty_world
      ?w1' _ _ 200] c' g'
  have 2: "length (requests (snd (downloadWithBuffer demo demo_opts
       ''https://example.com/tool.sha256'' ''/cache/tool.sha256'' empty_world))) = 1 \<and>
   fst (downloadWithBuffer demo demo_opts
       ''https://example.com/tool.sha256'' ''/cache/tool.sha256'' empty_world) =
     Some (BadStatus 204)"
    by (simp add: empty_world_def)
  from 1 2 show ?thesis
    by blast
qed

text \<open>
  The claim as stated fails on a response with status 204: the status is in the
  2xx range and the transfer returns the status error.
\<close>

theorem downloadWithBuffer_204_counterexample:
  "demo_net ''https://example.com/tool.sha256'' =
     Inr \<lparr>StatusCode = 204, ContentLength = 0, Body = []\<rparr> \<and>
   fst (downloadWithBuffer demo demo_opts
       ''https://example.com/tool.sha256'' ''/cache/tool.sha256'' empty_world) =
     Some (BadStatus 204)"
  by (simp add: demo_net_def downloadWithBuffer_def demo_def sim_def fs_WriteFile_def
      empty_world_def)

section \<open>Properties of the public download operations\<close>

lemma extractStep_failure:
  assumes "AutoExtract opts" and "extractFile s path w = (Inl e, w')"
  shows "extractStep s opts path w = (path, w')"
  using assms by (simp add: extractStep_def)

lemma moveStep_path:
  "fst (moveStep s opts path w) = path \<or>
   fst (moveStep s opts path w) = Join (TargetDir opts) (Base path)"
  by (simp add: moveStep_def Let_def split: prod.split option.split)

lemma DownloadSourceCode_extract_failure:
  assumes "AutoExtract opts"
    and "getSourceCodeURL s owner repo tag w = (Inr url, w1)"
    and "downloadWithBuffer s opts url
           (Join (CacheDir opts) (owner @ ''-'' @ repo @ ''-'' @ tag @ ''.tar.gz'')) w1 = (None, w2)"
    and "extractFile s (Join (CacheDir opts) (owner @ ''-'' @ repo @ ''-'' @ tag @ ''.tar.gz'')) w2 =
           (Inl e, w3)"
  shows "DownloadSourceCode s opts owner repo tag w =
           (Inr (fst (moveStep s opts
                   (Join (CacheDir opts) (owner @ ''-'' @ repo @ ''-'' @ tag @ ''.tar.gz'')) w3)),
            snd (moveStep s opts
                   (Join (CacheDir opts) (owner @ ''-'' @ repo @ ''-'' @ tag @ ''.tar.gz'')) w3))"
  using assms by (simp add: DownloadSourceCode_def Let_def extractStep_failure)

lemma placeFiles_extract_failure:
  assumes "AutoExtract opts" and "extractFile s path w = (Inl e, w')"
  shows "placeFiles s opts dirName [path] record w =
           (Inr (fst (moveStep s opts path w')), record (snd (moveStep s opts path w')))"
  using assms by (simp add: placeFiles_def Let_def extractStep_failure)

lemma DownloadLatestRelease_extract_failure:
  assumes "AutoExtract opts"
    and "getLatestRelease s owner repo w = (Inr release, w1)"
    and "\<not> (CheckLatest opts \<and> cacheIsCurrent s opts owner repo (TagName release) w1)"
    and "downloadAssets s opts (getReleaseAssets (GOOS s) (GOARCH s) release) w1 =
           Some (Inr [path], w2)"
    and "extractFile s path w2 = (Inl e, w3)"
  shows "DownloadLatestRelease s opts owner repo w =
           Some (Inr (fst (moveStep s opts path w3)),
                 updateCache s opts owner repo (TagName release) (snd (moveStep s opts path w3)))"
proof -
  from assms(4) have "getReleaseAssets (GOOS s) (GOARCH s) release \<noteq> []"
    by (auto simp: downloadAssets_def Let_def split: if_splits)
  then have "\<not> shouldDownloadSource opts (getReleaseAssets (GOOS s) (GOARCH s) release)"
    by (simp add: shouldDownloadSource_def)
  with assms show ?thesis
    by (auto simp: DownloadLatestRelease_def Let_def placeFiles_extract_failure)
qed

lemma DownloadSpecificRelease_extract_failure:
  assumes "AutoExtract opts"
    and "getReleaseByTag s owner repo tag w = (Inr release, w1)"
    and "downloadAssets s opts (getReleaseAssets (GOOS s) (GOARCH s) release) w1 =
           Some (Inr [path], w2)"
    and "extractFile s path w2 = (Inl e, w3)"
  shows "DownloadSpecificRelease s opts owner repo tag w =
           Some (Inr (fst (moveStep s opts path w3)), snd (moveStep s opts path w3))"
proof -
  from assms(3) have "getReleaseAssets (GOOS s) (GOARCH s) release \<noteq> []"
    by (auto simp: downloadAssets_def Let_def split: if_splits)
  then have "\<not> shouldDownloadSource opts (getReleaseAssets (GOOS s) (GOARCH s) release)"
    by (simp add: shouldDownloadSource_def)
  with assms show ?thesis
    by (simp add: DownloadSpecificRelease_def Let_def placeFiles_extract_failure)
qed


lemma pair_from_fst: "fst p = a \<Longrightarrow> p = (a, snd p)"
  by (cases p) simp

lemma some_pair_from_fst: "map_option fst r = Some a \<Longrightarrow> r = Some (a, snd (the r))"
  by (cases r) auto

text \<open>
  Claim C6. Let \<open>AutoExtract\<close> be set and let the extraction of the single
  downloaded file fail. Then \<open>DownloadSourceCode\<close>, \<open>DownloadLatestRelease\<close> and
  \<open>DownloadSpecificRelease\<close> each return without error, and the path returned is
  the path of the archive that was not extracted: the path it was downloaded to, or,
  when a target directory is configured and the move succeeds, its place in the
  target directory. A release operation that finds no asset and falls back to the
  source archive returns what \<open>DownloadSourceCode\<close> returns.
\<close>

theorem extraction_failure_not_fatal:
  assumes "AutoExtract opts" and "extractFile s path w2 = (Inl e, w3)"
  shows
    "(getSourceCodeURL s owner repo tag w = (Inr url, w1) \<and>
      path = Join (CacheDir opts) (owner @ ''-'' @ repo @ ''-'' @ tag @ ''.tar.gz'') \<and>
      downloadWithBuffer s opts url path w1 = (None, w2) \<longrightarrow>
        DownloadSourceCode s opts owner repo tag w =
          (Inr (fst (moveStep s opts path w3)), snd (moveStep s opts path w3))) \<and>
     (getLatestRelease s owner repo w = (Inr release, w1) \<and>
      \<not> (CheckLatest opts \<and> cacheIsCurrent s opts owner repo (TagName release) w1) \<and>
      downloadAssets s opts (getReleaseAssets (GOOS s) (GOARCH s) release) w1 =
        Some (Inr [path], w2) \<longrightarrow>
        DownloadLatestRelease s opts owner repo w =
          Some (Inr (fst (moveStep s opts path w3)),
                updateCache s opts owner repo (TagName release)
                  (snd (moveStep s opts path w3)))) \<and>
     (getReleaseByTag s owner repo tag w = (Inr release, w1) \<and>
      downloadAssets s opts (getReleaseAssets (GOOS s) (GOARCH s) release) w1 =
        Some (Inr [path], w2) \<longrightarrow>
        DownloadSpecificRelease s opts owner repo tag w =
          Some (Inr (fst (moveStep s opts path w3)), snd (moveStep s opts path w3))) \<and>
     (fst (moveStep s opts path w3) = path \<or>
      fst (moveStep s opts path w3) = Join (TargetDir opts) (Base path)) \<and>
     (TargetDir opts = [] \<or> TargetDir opts = CacheDir opts \<longrightarrow>
        fst (moveStep s opts path w3) = path) \<and>
     (getLatestRelease s owner repo w0 = (Inr release, w) \<and>
      \<not> (CheckLatest opts \<and> cacheIsCurrent s opts owner repo (TagName release) w) \<and>
      shouldDownloadSource opts (getReleaseAssets (GOOS s) (GOARCH s) release) \<and>
      tag = TagName release \<longrightarrow>
        DownloadLatestRelease s opts owner repo w0 =
          Some (DownloadSourceCode s opts owner repo tag w)) \<and>
     (getReleaseByTag s owner repo tag w0 = (Inr release, w) \<and>
      shouldDownloadSource opts (getReleaseAssets (GOOS s) (GOARCH s) release) \<longrightarrow>
        DownloadSpecificRelease s opts owner repo tag w0 =
          Some (DownloadSourceCode s opts owner repo tag w))"
proof -
  have source: "DownloadSourceCode s opts owner repo tag w =
      (Inr (fst (moveStep s opts path w3)), snd (moveStep s opts path w3))"
    if "getSourceCodeURL s owner repo tag w = (Inr url, w1)"
      and "path = Join (CacheDir opts) (owner @ ''-'' @ repo @ ''-'' @ tag @ ''.tar.gz'')"
      and "downloadWithBuffer s opts url path w1 = (None, w2)"
    using DownloadSourceCode_extract_failure [of opts s owner repo tag w url w1 w2 e w3]
      that assms by simp
  have latest: "DownloadLatestRelease s opts owner repo w =
      Some (Inr (fst (moveStep s opts path w3)),
            updateCache s opts owner repo (TagName release) (snd (moveStep s opts path w3)))"
    if "getLatestRelease s owner repo w = (Inr release, w1)"
      and "\<not> (CheckLatest opts \<and> cacheIsCurrent s opts owner repo (TagName release) w1)"
      and "downloadAssets s opts (getReleaseAssets (GOOS s) (GOARCH s) release) w1 =
        Some (Inr [path], w2)"
    using DownloadLatestRelease_extract_failure [OF assms(1) that assms(2)] .
  have specific: "DownloadSpecificRelease s opts owner repo tag w =
      Some (Inr (fst (moveStep s opts path w3)), snd (moveStep s opts path w3))"
    if "getReleaseByTag s owner repo tag w = (Inr release, w1)"
      and "downloadAssets s opts (getReleaseAssets (GOOS s) (GOARCH s) release) w1 =
        Some (Inr [path], w2)"
    using DownloadSpecificRelease_extract_failure [OF assms(1) that assms(2)] .
  have stay: "fst (moveStep s opts path w3) = path"
    if "TargetDir opts = [] \<or> TargetDir opts = CacheDir opts"
    using that by (auto simp: moveStep_def)
  have latest_source: "DownloadLatestRelease s opts owner repo w0 =
      Some (DownloadSourceCode s opts owner repo tag w)"
    if "getLatestRelease s owner repo w0 = (Inr release, w)"
      and "\<not> (CheckLatest opts \<and> cacheIsCurrent s opts owner repo (TagName release) w)"
      and "shouldDownloadSource opts (getReleaseAssets (GOOS s) (GOARCH s) release)"
      and "tag = TagName release"
    using that by (auto simp: DownloadLatestRelease_def Let_def)
  have specific_source: "DownloadSpecificRelease s opts owner repo tag w0 =
      Some (DownloadSourceCode s opts owner repo tag w)"
    if "getReleaseByTag s owner repo tag w0 = (Inr release, w)"
      and "shouldDownloadSource opts (getReleaseAssets (GOOS s) (GOARCH s) release)"
    using that by (simp add: DownloadSpecificRelease_def Let_def)
  from source latest specific stay latest_source specific_source
    moveStep_path [of s opts path w3]
  show ?thesis
    by blast
qed

theorem extraction_failure_not_fatal_witness:
  "AutoExtract demo_opts \<and>
   fst (extractFile demo ''/cache/acme-tool-v1.0.0.tar.gz''
          (snd (downloadWithBuffer demo demo_opts
                  ''https://github.com/acme/tool/archive/refs/tags/v1.0.0.tar.gz''
                  ''/cache/acme-tool-v1.0.0.tar.gz'' empty_world))) =
     Inl (GzipReaderFailed (External ''gzip: invalid header'')) \<and>
   fst (DownloadSourceCode demo demo_opts ''acme'' ''tool'' ''v1.0.0'' empty_world) =
     Inr ''/cache/acme-tool-v1.0.0.tar.gz'' \<and>
   map_option fst (DownloadLatestRelease demo demo_opts ''acme'' ''tool'' empty_world) =
     Some (Inr ''/cache/tool-linux-amd64.tgz'')"
proof -
  let ?url = "''https://github.com/acme/tool/archive/refs/tags/v1.0.0.tar.gz''"
  let ?path = "''/cache/acme-tool-v1.0.0.tar.gz''"
  let ?w2 = "snd (downloadWithBuffer demo demo_opts ?url ?path empty_world)"
  let ?w3 = "snd (extractFile demo ?path ?w2)"
  have auto_extract: "AutoExtract demo_opts"
    by (simp add: demo_opts_def)
  have no_target: "TargetDir demo_opts = []"
    by (simp add: demo_opts_def)
  have url: "getSourceCodeURL demo ''acme'' ''tool'' ''v1.0.0'' empty_world = (Inr ?url, empty_world)"
    by (simp add: getSourceCodeURL_def sourceCodeURL_def)
  have path: "?path = Join (CacheDir demo_opts) (''acme'' @ ''-'' @ ''tool'' @ ''-'' @ ''v1.0.0'' @ ''.tar.gz'')"
    by code_simp
  have "fst (downloadWithBuffer demo demo_opts ?url ?path empty_world) = None"
    by code_simp
  then have download: "downloadWithBuffer demo demo_opts ?url ?path empty_world = (None, ?w2)"
    by (rule pair_from_fst)
  have broken: "fst (extractFile demo ?path ?w2) =
      Inl (GzipReaderFailed (External ''gzip: invalid header''))"
    by code_simp
  then have extraction: "extractFile demo ?path ?w2 =
      (Inl (GzipReaderFailed (External ''gzip: invalid header'')), ?w3)"
    by (rule pair_from_fst)
  from extraction_failure_not_fatal
    [OF auto_extract extraction, of "''acme''" "''tool''" "''v1.0.0''" empty_world ?url empty_world]
    url path download no_target
  have 1: "fst (DownloadSourceCode demo demo_opts ''acme'' ''tool'' ''v1.0.0'' empty_world) = Inr ?path"
    by simp
  let ?assets = "getReleaseAssets (GOOS demo) (GOARCH demo) demo_release"
  let ?asset = "''/cache/tool-linux-amd64.tgz''"
  let ?v2 = "snd (the (downloadAssets demo demo_opts ?assets empty_world))"
  let ?v3 = "snd (extractFile demo ?asset ?v2)"
  have latest: "getLatestRelease demo ''acme'' ''tool'' empty_world = (Inr demo_release, empty_world)"
    by (simp add: getLatestRelease_def demo_def sim_def)
  have stale: "\<not> (CheckLatest demo_opts \<and>
      cacheIsCurrent demo demo_opts ''acme'' ''tool'' (TagName demo_release) empty_world)"
    by code_simp
  have "map_option fst (downloadAssets demo demo_opts ?assets empty_world) = Some (Inr [?asset])"
    by code_simp
  then have assets: "downloadAssets demo demo_opts ?assets empty_world = Some (Inr [?asset], ?v2)"
    by (rule some_pair_from_fst)
  have "fst (extractFile demo ?asset ?v2) = Inl (GzipReaderFailed (External ''gzip: invalid header''))"
    by code_simp
  then have extraction': "extractFile demo ?asset ?v2 =
      (Inl (GzipReaderFailed (External ''gzip: invalid header'')), ?v3)"
    by (rule pair_from_fst)
  from extraction_failure_not_fatal
    [OF auto_extract extraction', of "''acme''" "''tool''" _ empty_world _ empty_world demo_release]
    latest stale assets no_target
  have 2: "map_option fst (DownloadLatestRelease demo demo_opts ''acme'' ''tool'' empty_world) =
      Some (Inr ?asset)"
    by simp
  from auto_extract broken 1 2 show ?thesis
    by blast
qed

section \<open>Properties of the paths\<close>

lemma split_sep_not_Nil: "split_sep p \<noteq> []"
  by (induction p) (auto split: list.split)

lemma split_sep_plain: "CHR ''/'' \<notin> set e \<Longrightarrow> split_sep e = [e]"
  by (induction e) (auto simp: IsPathSeparator_def)

lemma split_sep_append:
  "CHR ''/'' \<notin> set e \<Longrightarrow> split_sep (d @ CHR ''/'' # e) = split_sep d @ [e]"
proof (induction d)
  case Nil
  then show ?case by (simp add: IsPathSeparator_def split_sep_plain)
next
  case (Cons c d)
  then show ?case
    using split_sep_not_Nil [of d] by (auto split: list.split)
qed

lemma clean_step_plain: "plain_element e \<Longrightarrow> clean_step rooted out e = out @ [e]"
  by (auto simp: clean_step_def plain_element_def)

lemma join_sep_snoc:
  "join_sep (es @ [e]) = (if es = [] then e else join_sep es @ ''/'' @ e)"
  by (induction es rule: join_sep.induct) auto

lemma Join_plain:
  assumes "plain_element e"
  shows "Join d e = join_prefix d @ e"
proof (cases "d = []")
  case True
  from assms have "Clean e = e"
    by (cases e) (auto simp: Clean_def plain_element_def split_sep_plain clean_step_def
        IsPathSeparator_def Let_def)
  with True assms show ?thesis
    by (simp add: Join_def join_prefix_def plain_element_def)
next
  case False
  from assms have sep: "CHR ''/'' \<notin> set e" and ne: "e \<noteq> []"
    by (simp_all add: plain_element_def)
  from False have hd: "hd (d @ ''/'' @ e) = hd d"
    by simp
  from False ne show ?thesis
    by (simp add: Join_def Clean_def join_prefix_def Let_def split_sep_append [OF sep]
        clean_step_plain [OF assms] join_sep_snoc)
qed

lemma Join_plain_inject:
  "plain_element e \<Longrightarrow> plain_element e' \<Longrightarrow> Join d e = Join d e' \<longleftrightarrow> e = e'"
  by (simp add: Join_plain)

lemma plain_owner_repo:
  "CHR ''/'' \<notin> set owner \<Longrightarrow> CHR ''/'' \<notin> set repo \<Longrightarrow> plain_element (owner @ ''-'' @ repo)"
  by (cases owner; cases "tl owner") (auto simp: plain_element_def)


lemma plain_owner_repo_tag:
  "CHR ''/'' \<notin> set owner \<Longrightarrow> CHR ''/'' \<notin> set repo \<Longrightarrow> CHR ''/'' \<notin> set tag \<Longrightarrow>
     plain_element (owner @ ''-'' @ repo @ ''-'' @ tag)"
  by (cases owner; cases "tl owner") (auto simp: plain_element_def)

lemma DownloadLatestRelease_cached:
  assumes "CheckLatest opts" and "getLatestRelease s owner repo w = (Inr release, w1)"
    and "cacheIsCurrent s opts owner repo (TagName release) w1"
  shows "DownloadLatestRelease s opts owner repo w =
           Some (Inr (Join (CacheDir opts) (owner @ ''-'' @ repo)), w1)"
  using assms by (simp add: DownloadLatestRelease_def)

lemma downloadAsset_path:
  "fst (downloadAsset s opts asset w) = Inr path \<Longrightarrow> path = Join (CacheDir opts) (Name asset)"
  by (auto simp: downloadAsset_def Let_def split: prod.splits option.splits)

lemma multiFile_path:
  assumes "multiFile s opts dirName filePaths w = (Inr path, w')"
  shows "path = Join (CacheDir opts) dirName \<or>
         path = Join (TargetDir opts) (Base (Join (CacheDir opts) dirName))"
  using assms moveStep_path [of s opts "Join (CacheDir opts) dirName"]
  by (auto simp: multiFile_def Let_def split: prod.splits option.splits)

lemma DownloadLatestRelease_directory:
  assumes "getLatestRelease s owner repo w = (Inr release, w1)"
    and "\<not> (CheckLatest opts \<and> cacheIsCurrent s opts owner repo (TagName release) w1)"
    and "downloadAssets s opts (getReleaseAssets (GOOS s) (GOARCH s) release) w1 =
           Some (Inr filePaths, w2)"
    and "length filePaths \<noteq> 1"
    and "\<not> shouldDownloadSource opts (getReleaseAssets (GOOS s) (GOARCH s) release)"
    and "DownloadLatestRelease s opts owner repo w = Some (Inr path, w')"
  shows "path = Join (CacheDir opts) (owner @ ''-'' @ repo @ ''-'' @ TagName release) \<or>
         path = Join (TargetDir opts)
                  (Base (Join (CacheDir opts) (owner @ ''-'' @ repo @ ''-'' @ TagName release)))"
proof -
  from assms have "placeFiles s opts (owner @ ''-'' @ repo @ ''-'' @ TagName release) filePaths
      (updateCache s opts owner repo (TagName release)) w2 = (Inr path, w')"
    by (auto simp: DownloadLatestRelease_def Let_def)
  with assms(4) obtain w'' where
    "multiFile s opts (owner @ ''-'' @ repo @ ''-'' @ TagName release) filePaths w2 = (Inr path, w'')"
    by (auto simp: placeFiles_def split: prod.splits sum.splits)
  then show ?thesis
    by (rule multiFile_path)
qed

text \<open>
  Claim C9, as amended. When \<open>CheckLatest\<close> is set and the record file holds the
  tag of the latest release, \<open>DownloadLatestRelease\<close> returns the path
  \<open>CacheDir/owner-repo\<close> and downloads nothing. A single asset is downloaded to
  \<open>CacheDir/name\<close>, and that path is the path of the short cut exactly when the
  asset is named \<open>owner-repo\<close>. A release of several files is placed in
  \<open>CacheDir/owner-repo-tag\<close>, or in the target directory under that name, and
  \<open>CacheDir/owner-repo-tag\<close> is never the path of the short cut. The comparisons are
  for an owner, a repository and a tag without separator and an asset name that is a
  single path element.
\<close>

theorem cached_path_and_download_paths:
  "(CheckLatest opts \<and> getLatestRelease s owner repo w = (Inr release, w1) \<and>
    cacheIsCurrent s opts owner repo (TagName release) w1 \<longrightarrow>
      DownloadLatestRelease s opts owner repo w =
        Some (Inr (Join (CacheDir opts) (owner @ ''-'' @ repo)), w1)) \<and>
   (fst (downloadAsset s opts asset w) = Inr path \<longrightarrow>
      path = Join (CacheDir opts) (Name asset)) \<and>
   (getLatestRelease s owner repo w = (Inr release, w1) \<and>
    \<not> (CheckLatest opts \<and> cacheIsCurrent s opts owner repo (TagName release) w1) \<and>
    \<not> shouldDownloadSource opts (getReleaseAssets (GOOS s) (GOARCH s) release) \<and>
    downloadAssets s opts (getReleaseAssets (GOOS s) (GOARCH s) release) w1 =
      Some (Inr filePaths, w2) \<and>
    length filePaths \<noteq> 1 \<and>
    DownloadLatestRelease s opts owner repo w = Some (Inr path, w') \<longrightarrow>
      path = Join (CacheDir opts) (owner @ ''-'' @ repo @ ''-'' @ TagName release) \<or>
      path = Join (TargetDir opts)
               (Base (Join (CacheDir opts) (owner @ ''-'' @ repo @ ''-'' @ TagName release)))) \<and>
   (CHR ''/'' \<notin> set owner \<and> CHR ''/'' \<notin> set repo \<and> plain_element (Name asset) \<longrightarrow>
      (Join (CacheDir opts) (Name asset) = Join (CacheDir opts) (owner @ ''-'' @ repo) \<longleftrightarrow>
       Name asset = owner @ ''-'' @ repo)) \<and>
   (CHR ''/'' \<notin> set owner \<and> CHR ''/'' \<notin> set repo \<and> CHR ''/'' \<notin> set tag \<longrightarrow>
      Join (CacheDir opts) (owner @ ''-'' @ repo @ ''-'' @ tag) \<noteq>
      Join (CacheDir opts) (owner @ ''-'' @ repo))"
proof -
  have single: "Join (CacheDir opts) (Name asset) = Join (CacheDir opts) (owner @ ''-'' @ repo) \<longleftrightarrow>
      Name asset = owner @ ''-'' @ repo"
    if "CHR ''/'' \<notin> set owner" "CHR ''/'' \<notin> set repo" "plain_element (Name asset)"
    using Join_plain_inject [OF that(3) plain_owner_repo [OF that(1) that(2)], of "CacheDir opts"]
    by simp
  have several: "Join (CacheDir opts) (owner @ ''-'' @ repo @ ''-'' @ tag) \<noteq>
      Join (CacheDir opts) (owner @ ''-'' @ repo)"
    if "CHR ''/'' \<notin> set owner" "CHR ''/'' \<notin> set repo" "CHR ''/'' \<notin> set tag"
    using Join_plain_inject [OF plain_owner_repo_tag [OF that] plain_owner_repo [OF that(1) that(2)],
        of "CacheDir opts"]
    by simp
  from single several DownloadLatestRelease_cached [of opts s owner repo w release w1]
    downloadAsset_path [of s opts asset w path]
    DownloadLatestRelease_directory [of s owner repo w release w1 opts filePaths w2 path w']
  show ?thesis
    by blast
qed


theorem cached_path_and_download_paths_witness:
  "DownloadLatestRelease cli demo_opts ''cli'' ''cli''
     (snd (the (DownloadLatestRelease cli demo_opts ''cli'' ''cli'' empty_world))) =
     Some (Inr ''/cache/cli-cli'',
           snd (the (DownloadLatestRelease cli demo_opts ''cli'' ''cli'' empty_world))) \<and>
   fst (downloadAsset demo demo_opts
          \<lparr>Name = ''tool-linux-amd64.tgz'', Size = 5,
           BrowserDownloadURL = ''https://example.com/tool.tgz''\<rparr> empty_world) =
     Inr ''/cache/tool-linux-amd64.tgz'' \<and>
   Join (CacheDir demo_opts) ''tool-linux-amd64.tgz'' \<noteq>
     Join (CacheDir demo_opts) (''acme'' @ ''-'' @ ''tool'') \<and>
   Join (CacheDir demo_opts) (''acme'' @ ''-'' @ ''tool'' @ ''-'' @ ''v1.0.0'') \<noteq>
     Join (CacheDir demo_opts) (''acme'' @ ''-'' @ ''tool'')"
proof -
  let ?w1 = "snd (the (DownloadLatestRelease cli demo_opts ''cli'' ''cli'' empty_world))"
  let ?asset = "\<lparr>Name = ''tool-linux-amd64.tgz'', Size = 5,
           BrowserDownloadURL = ''https://example.com/tool.tgz''\<rparr>"
  have check: "CheckLatest demo_opts"
    by (simp add: demo_opts_def)
  have latest: "getLatestRelease cli ''cli'' ''cli'' ?w1 = (Inr cli_release, ?w1)"
    by (simp add: getLatestRelease_def cli_def sim_def)
  have current: "cacheIsCurrent cli demo_opts ''cli'' ''cli'' (TagName cli_release) ?w1"
    by code_simp
  have short: "Join (CacheDir demo_opts) (''cli'' @ ''-'' @ ''cli'') = ''/cache/cli-cli''"
    by code_simp
  from cached_path_and_download_paths
    [where s = cli and opts = demo_opts and owner = "''cli''" and repo = "''cli''"
       and w = ?w1 and release = cli_release and ?w1.0 = ?w1]
    check latest current short
  have 1: "DownloadLatestRelease cli demo_opts ''cli'' ''cli'' ?w1 =
      Some (Inr ''/cache/cli-cli'', ?w1)"
    by simp
  have downloaded: "fst (downloadAsset demo demo_opts ?asset empty_world) =
      Inr ''/cache/tool-linux-amd64.tgz''"
    by code_simp
  have plain: "plain_element (Name ?asset)"
    by (simp add: plain_element_def)
  from cached_path_and_download_paths
    [where s = demo and opts = demo_opts and owner = "''acme''" and repo = "''tool''"
       and tag = "''v1.0.0''" and asset = ?asset and w = empty_world
       and path = "''/cache/tool-linux-amd64.tgz''"]
    downloaded plain
  have 2: "Join (CacheDir demo_opts) ''tool-linux-amd64.tgz'' \<noteq>
       Join (CacheDir demo_opts) (''acme'' @ ''-'' @ ''tool'') \<and>
     Join (CacheDir demo_opts) (''acme'' @ ''-'' @ ''tool'' @ ''-'' @ ''v1.0.0'') \<noteq>
       Join (CacheDir demo_opts) (''acme'' @ ''-'' @ ''tool'')"
    by simp
  from 1 downloaded 2 show ?thesis
    by blast
qed

text \<open>
  The claim as stated fails for an asset named after the owner and the repository:
  the first call downloads the asset \<open>cli-cli\<close> of the repository \<open>cli/cli\<close> to
  \<open>/cache/cli-cli\<close> and writes the record; the second call finds the record
  current and returns the same path, the path of the downloaded file.
\<close>

theorem cached_path_written_counterexample:
  "map_option fst (DownloadLatestRelease cli demo_opts ''cli'' ''cli'' empty_world) =
     Some (Inr ''/cache/cli-cli'') \<and>
   files (snd (the (DownloadLatestRelease cli demo_opts ''cli'' ''cli'' empty_world)))
     ''/cache/cli-cli'' = Some (RegularFile ''hello'') \<and>
   cacheIsCurrent cli demo_opts ''cli'' ''cli'' ''v2.0.0''
     (snd (the (DownloadLatestRelease cli demo_opts ''cli'' ''cli'' empty_world))) \<and>
   map_option fst (DownloadLatestRelease cli demo_opts ''cli'' ''cli''
     (snd (the (DownloadLatestRelease cli demo_opts ''cli'' ''cli'' empty_world)))) =
     Some (Inr ''/cache/cli-cli'')"
  by code_simp

section \<open>Properties of the archive extractor\<close>

lemma ToLower_char_cases:
  "ToLower_char c = c \<or> ToLower_char c \<in> set ''abcdefghijklmnopqrstuvwxyz''"
  unfolding ToLower_char_def
  by (auto split: option.split dest!: map_of_SomeD set_zip_rightD)

lemma ToLower_char_dot: "ToLower_char c = CHR ''.'' \<Longrightarrow> c = CHR ''.''"
  using ToLower_char_cases [of c] by auto

lemma ToLower_char_letter:
  assumes "ToLower_char c = l" and "l \<in> set ''abcdefghijklmnopqrstuvwxyz''"
  shows "c \<noteq> CHR ''.'' \<and> \<not> IsPathSeparator c"
proof -
  have "ToLower_char CHR ''.'' = CHR ''.''" "ToLower_char CHR ''/'' = CHR ''/''"
    by (simp_all add: ToLower_char_def)
  with assms show ?thesis
    by (auto simp: IsPathSeparator_def)
qed

lemma Ext_tar_gz:
  assumes "ToLower suf = ''.tar.gz''"
  shows "ToLower (Ext (stem @ suf)) = ''.gz''"
proof -
  from assms obtain c1 c2 c3 c4 c5 c6 c7 where suf: "suf = [c1, c2, c3, c4, c5, c6, c7]"
    and c5: "ToLower_char c5 = CHR ''.''" and c6: "ToLower_char c6 = CHR ''g''"
    and c7: "ToLower_char c7 = CHR ''z''"
    by (auto simp: ToLower_def map_eq_Cons_conv)
  from c5 have dot: "c5 = CHR ''.''"
    by (rule ToLower_char_dot)
  from ToLower_char_letter [OF c6] ToLower_char_letter [OF c7]
  have "c6 \<noteq> CHR ''.'' \<and> \<not> IsPathSeparator c6" "c7 \<noteq> CHR ''.'' \<and> \<not> IsPathSeparator c7"
    by simp_all
  with suf dot have "Ext (stem @ suf) = [c5, c6, c7]"
    by (simp add: Ext_def IsPathSeparator_def)
  with c5 c6 c7 show ?thesis
    by (simp add: ToLower_def)
qed

lemma extractFile_tar_gz_is_gz:
  assumes "ToLower suf = ''.tar.gz''"
  shows "extractFile s (stem @ suf) w = extractGz s (stem @ suf) w"
  using Ext_tar_gz [OF assms, of stem] by (simp add: extractFile_def)

lemma tarGzExtractedDir_tar_gz:
  assumes "ToLower suf = ''.tar.gz''"
  shows "tarGzExtractedDir (stem @ suf) = stem @ suf"
proof -
  from assms obtain c1 c2 c3 c4 c5 c6 c7 where suf: "suf = [c1, c2, c3, c4, c5, c6, c7]"
    and c1: "ToLower_char c1 = CHR ''.''" and c2: "ToLower_char c2 = CHR ''t''"
    and c3: "ToLower_char c3 = CHR ''a''" and c4: "ToLower_char c4 = CHR ''r''"
    and c5: "ToLower_char c5 = CHR ''.''" and c6: "ToLower_char c6 = CHR ''g''"
    and c7: "ToLower_char c7 = CHR ''z''"
    by (auto simp: ToLower_def map_eq_Cons_conv)
  from c1 c5 have dot: "c1 = CHR ''.''" "c5 = CHR ''.''"
    by (simp_all add: ToLower_char_dot)
  from ToLower_char_letter [OF c2] ToLower_char_letter [OF c3] ToLower_char_letter [OF c4]
    ToLower_char_letter [OF c6] ToLower_char_letter [OF c7]
  have letters: "c2 \<noteq> CHR ''.'' \<and> \<not> IsPathSeparator c2" "c3 \<noteq> CHR ''.'' \<and> \<not> IsPathSeparator c3"
    "c4 \<noteq> CHR ''.'' \<and> \<not> IsPathSeparator c4" "c6 \<noteq> CHR ''.'' \<and> \<not> IsPathSeparator c6"
    "c7 \<noteq> CHR ''.'' \<and> \<not> IsPathSeparator c7"
    by simp_all
  from suf dot letters have outer: "Ext (stem @ suf) = [c5, c6, c7]"
    by (simp add: Ext_def IsPathSeparator_def)
  have split: "stem @ suf = (stem @ [c1, c2, c3, c4]) @ [c5, c6, c7]"
    by (simp add: suf)
  have trimmed: "TrimSuffix (stem @ suf) [c5, c6, c7] = stem @ [c1, c2, c3, c4]"
    unfolding split by (simp add: TrimSuffix_def suffix_def)
  from dot letters have inner: "Ext (stem @ [c1, c2, c3, c4]) = [c1, c2, c3, c4]"
    by (simp add: Ext_def IsPathSeparator_def)
  from letters dot have no_suffix: "\<not> suffix [c1, c2, c3, c4] (stem @ suf)"
    by (auto simp: suf suffix_def append_eq_append_conv2 append_eq_Cons_conv Cons_eq_append_conv)
  have "tarGzExtractedDir (stem @ suf) = TrimSuffix (stem @ suf) [c1, c2, c3, c4]"
    by (simp only: tarGzExtractedDir_def outer trimmed inner)
  also from no_suffix have "\<dots> = stem @ suf"
    by (simp only: TrimSuffix_def if_False)
  finally show ?thesis .
qed

text \<open>
  Claim C1, at the failing inputs. The extension of a path that ends in
  \<open>.tar.gz\<close> is \<open>.gz\<close>, so \<open>extractFile\<close> calls \<open>extractGz\<close> on a source
  archive and never \<open>extractTarGz\<close>: in the simulated environment the archive is
  decompressed into the single file \<open>/cache/acme-tool-v1.0.0.tar\<close>. On a path that
  ends in \<open>.tgz\<close>, the extraction directory that \<open>extractTarGz\<close> computes is
  the path of the archive itself, and in the simulated environment the extraction
  of a valid archive fails when that directory is made.
\<close>

theorem extractFile_tar_gz_failing_input:
  "extractFile s ''/cache/acme-tool-v1.0.0.tar.gz'' w =
     extractGz s ''/cache/acme-tool-v1.0.0.tar.gz'' w \<and>
   ToLower (Ext ''/cache/acme-tool-v1.0.0.tar.gz'') = ''.gz'' \<and>
   fst (extractFile demo ''/cache/acme-tool-v1.0.0.tar.gz'' archive_world) =
     Inr ''/cache/acme-tool-v1.0.0.tar'' \<and>
   files (snd (extractFile demo ''/cache/acme-tool-v1.0.0.tar.gz'' archive_world))
     ''/cache/acme-tool-v1.0.0.tar'' = Some (RegularFile ''tarball'') \<and>
   tarGzExtractedDir ''/cache/tool-linux-amd64.tgz'' = ''/cache/tool-linux-amd64.tgz'' \<and>
   tarGzExtractedDir ''/cache/acme-tool-v1.0.0.tar.gz'' = ''/cache/acme-tool-v1.0.0.tar.gz'' \<and>
   fst (extractFile demo ''/cache/tool-linux-amd64.tgz'' archive_world) =
     Inl (CreateExtractDirFailed (External ''not a directory''))"
proof -
  have ext: "ToLower (Ext ''/cache/acme-tool-v1.0.0.tar.gz'') = ''.gz''"
    by code_simp
  then have "extractFile s ''/cache/acme-tool-v1.0.0.tar.gz'' w =
     extractGz s ''/cache/acme-tool-v1.0.0.tar.gz'' w"
    by (simp add: extractFile_def)
  moreover have "fst (extractFile demo ''/cache/acme-tool-v1.0.0.tar.gz'' archive_world) =
     Inr ''/cache/acme-tool-v1.0.0.tar''"
    by code_simp
  moreover have "files (snd (extractFile demo ''/cache/acme-tool-v1.0.0.tar.gz'' archive_world))
     ''/cache/acme-tool-v1.0.0.tar'' = Some (RegularFile ''tarball'')"
    by code_simp
  moreover have "tarGzExtractedDir ''/cache/tool-linux-amd64.tgz'' = ''/cache/tool-linux-amd64.tgz''"
    by code_simp
  moreover have "tarGzExtractedDir ''/cache/acme-tool-v1.0.0.tar.gz'' =
      ''/cache/acme-tool-v1.0.0.tar.gz''"
    by code_simp
  moreover have "fst (extractFile demo ''/cache/tool-linux-amd64.tgz'' archive_world) =
     Inl (CreateExtractDirFailed (External ''not a directory''))"
    by code_simp
  ultimately show ?thesis
    using ext by blast
qed

end
